theory Spec2Isabelle
  imports Main "HOL-Library.Word"
begin

section \<open>The print spool: job scheduler and device session manager\<close>

text \<open>
  A shallow embedding of \<^verbatim>\<open>internal/core/queue.go\<close> (the job scheduler) and of the
  printer manager (\<^verbatim>\<open>package core\<close>, the third unit of
  \<^verbatim>\<open>internal/archive/archiver.go\<close>). Go structs are records, Go maps are partial
  functions, \<^verbatim>\<open>error\<close> results are values of a datatype, the SQL statements are
  functions on the tables they read and write, and every function that mutates the
  scheduler, the manager or the store takes the state and returns the new one.

  Each function is modelled as it runs when no other goroutine interferes: the mutexes
  have no counterpart, and the clock does not advance within one call. Only durations
  are machine integers here; identifiers, counters and priorities are unbounded.
\<close>

subsection \<open>Durations\<close>

text \<open>
  \<^verbatim>\<open>time.Duration\<close> is an \<^verbatim>\<open>int64\<close> count of nanoseconds: a 64-bit word whose
  arithmetic wraps around, read as a signed number by \<^const>\<open>sint\<close>.
\<close>

type_synonym Duration = "64 word"

definition Second :: Duration where
  "Second = 1000000000"

definition Minute :: Duration where
  "Minute = 60 * Second"

record QueueConfig =
  ConfigMaxRetries :: int
  RetryDelay :: Duration
  WorkerCount :: int

text \<open>
  The field \<^verbatim>\<open>MaxRetries\<close> of \<^verbatim>\<open>config.QueueConfig\<close> is \<open>ConfigMaxRetries\<close> here:
  the job struct has a field of the same name.
\<close>

text \<open>
  \<^verbatim>\<open>calculateBackoff\<close>. The operand \<^verbatim>\<open>1<<uint(retryCount)\<close> has the type of the
  conversion around it, \<^verbatim>\<open>time.Duration\<close>: the count is \<^verbatim>\<open>retryCount\<close> read as an
  unsigned 64-bit number, and a shift by 64 or more gives 0. The product wraps, and the
  comparison with the cap is signed.
\<close>

definition calculateBackoff :: "QueueConfig \<Rightarrow> int \<Rightarrow> Duration" where
  "calculateBackoff cfg retryCount =
    (let baseDelay = (if RetryDelay cfg = 0 then 10 * Second else RetryDelay cfg);
         backoff = baseDelay * push_bit (unat (word_of_int retryCount :: 64 word)) 1;
         maxBackoff = 5 * Minute
     in if maxBackoff <s backoff then maxBackoff else backoff)"

text \<open>The configuration \<^verbatim>\<open>NewQueue\<close> builds when it is given none.\<close>

definition defaultQueueConfig :: QueueConfig where
  "defaultQueueConfig = \<lparr>ConfigMaxRetries = 3, RetryDelay = 10 * Second, WorkerCount = 2\<rparr>"

subsection \<open>Decoding the status response\<close>

type_synonym byte = "8 word"
type_synonym Time = nat

record PrinterStatus =
  RawStatus :: "byte list"
  PrinterState :: string
  Warning :: string
  Error :: string
  MediaError :: string
  IsOnline :: bool
  CanPrint :: bool
  LastChecked :: Time

text \<open>
  The four lookup tables, keyed by the byte's code: \<^verbatim>\<open>'@'\<close> is 0x40, \<^verbatim>\<open>'A'\<close> to
  \<^verbatim>\<open>'F'\<close> are 0x41 to 0x46, \<^verbatim>\<open>'H'\<close> 0x48, \<^verbatim>\<open>'I'\<close> 0x49, \<^verbatim>\<open>'L'\<close> 0x4C,
  \<^verbatim>\<open>'P'\<close> 0x50, \<^verbatim>\<open>'S'\<close> 0x53 and the backquote 0x60.
\<close>

definition printerStateMap :: "byte \<rightharpoonup> string" where
  "printerStateMap = map_of
    [(0x40, ''normal''), (0x46, ''feeding''), (0x50, ''paused''), (0x45, ''error''),
     (0x48, ''head_open''), (0x53, ''standby''), (0x4C, ''label_waiting''), (0x49, ''idle'')]"

definition warningMap :: "byte \<rightharpoonup> string" where
  "warningMap = map_of
    [(0x40, ''none''), (0x41, ''paper_low''), (0x42, ''ribbon_low''),
     (0x43, ''paper_and_ribbon_low'')]"

definition errorMap :: "byte \<rightharpoonup> string" where
  "errorMap = map_of
    [(0x40, ''none''), (0x41, ''head_overheat''), (0x42, ''motor_overheat''),
     (0x43, ''head_and_motor_overheat''), (0x44, ''head_error''), (0x45, ''cutter_error''),
     (0x46, ''rtc_error'')]"

definition mediaErrorMap :: "byte \<rightharpoonup> string" where
  "mediaErrorMap = map_of
    [(0x40, ''none''), (0x41, ''paper_empty''), (0x42, ''ribbon_empty''),
     (0x43, ''paper_and_ribbon_empty''), (0x44, ''takeup_reel_full''), (0x60, ''head_open'')]"

text \<open>\<^verbatim>\<open>if v, ok := m[b]; ok { field = v } else { field = "unknown" }\<close>\<close>

definition lookupOrUnknown :: "(byte \<rightharpoonup> string) \<Rightarrow> byte \<Rightarrow> string" where
  "lookupOrUnknown m b = (case m b of Some v \<Rightarrow> v | None \<Rightarrow> ''unknown'')"

text \<open>
  \<^verbatim>\<open>parseStatus\<close> indexes \<^verbatim>\<open>response[0]\<close> to \<^verbatim>\<open>response[3]\<close>: on a shorter slice
  Go panics, which is \<^const>\<open>None\<close> here. The fields it does not set keep Go's zero
  values: \<^verbatim>\<open>IsOnline\<close> and \<^verbatim>\<open>CanPrint\<close> false, \<^verbatim>\<open>LastChecked\<close> the zero time.
\<close>

fun parseStatus :: "byte list \<Rightarrow> PrinterStatus option" where
  "parseStatus (b0 # b1 # b2 # b3 # rest) = Some
     \<lparr>RawStatus = [b0, b1, b2, b3],
      PrinterState = lookupOrUnknown printerStateMap b0,
      Warning = lookupOrUnknown warningMap b1,
      Error = lookupOrUnknown errorMap b2,
      MediaError = lookupOrUnknown mediaErrorMap b3,
      IsOnline = False,
      CanPrint = False,
      LastChecked = 0\<rparr>"
| "parseStatus short = None"

definition determineStatusString :: "PrinterStatus \<Rightarrow> string" where
  "determineStatusString status =
    (if \<not> IsOnline status then ''offline''
     else if PrinterState status = ''error'' \<or> Error status \<noteq> ''none'' then ''error''
     else if PrinterState status = ''paused'' then ''paused''
     else if MediaError status \<noteq> ''none'' then ''error''
     else if PrinterState status = ''feeding'' then ''busy''
     else ''online'')"

text \<open>
  What \<^verbatim>\<open>CheckStatus\<close> does with a complete response, read at time \<open>now\<close>: it parses
  it, marks the status online, stamps it, and sets \<^verbatim>\<open>CanPrint\<close> from the printer state.
\<close>

definition decodeResponse :: "Time \<Rightarrow> byte list \<Rightarrow> PrinterStatus option" where
  "decodeResponse now response =
    (case parseStatus response of
       None \<Rightarrow> None
     | Some status \<Rightarrow> Some (status
         \<lparr>IsOnline := True,
          LastChecked := now,
          CanPrint := (PrinterState status = ''normal'' \<or> PrinterState status = ''standby''
                        \<or> PrinterState status = ''idle'')\<rparr>))"

text \<open>
  The precedence of the composite status in the specification's words: an ordered list
  of conditions with the status each gives, the first that holds deciding, and
  \<open>online\<close> when none does.
\<close>

fun firstMatch :: "(bool \<times> string) list \<Rightarrow> string \<Rightarrow> string" where
  "firstMatch [] otherwise = otherwise"
| "firstMatch ((holds, result) # rest) otherwise =
     (if holds then result else firstMatch rest otherwise)"

definition compositeByPrecedence :: "PrinterStatus \<Rightarrow> string" where
  "compositeByPrecedence s = firstMatch
     [(IsOnline s = False, ''offline''),
      (Error s \<noteq> ''none'' \<or> PrinterState s = ''error'', ''error''),
      (PrinterState s = ''paused'', ''paused''),
      (MediaError s \<noteq> ''none'', ''error''),
      (PrinterState s = ''feeding'', ''busy'')]
     ''online''"

subsection \<open>Jobs\<close>

text \<open>
  \<^verbatim>\<open>type JobStatus string\<close>: a job's status is a string, and the six constants are the
  values the \<^verbatim>\<open>CHECK\<close> constraint of the \<^verbatim>\<open>print_jobs.status\<close> column admits. The
  zero value, the empty string, is what \<^verbatim>\<open>Enqueue\<close> tests for.
\<close>

type_synonym JobStatus = string

definition JobStatusPending :: JobStatus where
  "JobStatusPending = ''pending''"

definition JobStatusProcessing :: JobStatus where
  "JobStatusProcessing = ''processing''"

definition JobStatusCompleted :: JobStatus where
  "JobStatusCompleted = ''completed''"

definition JobStatusFailed :: JobStatus where
  "JobStatusFailed = ''failed''"

definition JobStatusPaused :: JobStatus where
  "JobStatusPaused = ''paused''"

definition JobStatusCancelled :: JobStatus where
  "JobStatusCancelled = ''cancelled''"

definition validJobStatus :: "JobStatus \<Rightarrow> bool" where
  "validJobStatus s \<longleftrightarrow> s \<in> {JobStatusPending, JobStatusProcessing, JobStatusCompleted,
     JobStatusFailed, JobStatusPaused, JobStatusCancelled}"

text \<open>
  The Go struct \<^verbatim>\<open>Job\<close>. Identifiers, priorities and counts are \<^typ>\<open>int\<close>: nothing proved
  depends on their 64-bit range, except where \<^const>\<open>calculateBackoff\<close> converts the
  retry count.
\<close>

record Job =
  ID :: int
  PrinterID :: int
  TemplateID :: int
  VariablesJSON :: string
  TSPLContent :: string
  Status :: JobStatus
  Priority :: int
  RetryCount :: int
  MaxRetries :: int
  Copies :: int
  ErrorMessage :: string
  SubmittedBy :: string
  CreatedAt :: Time
  StartedAt :: "Time option"
  CompletedAt :: "Time option"

subsection \<open>The store\<close>

text \<open>
  A row of the table \<^verbatim>\<open>print_jobs\<close> (\<^verbatim>\<open>001_initial.sql\<close>), without its key \<^verbatim>\<open>id\<close>.
  The table has no column for the maximum number of retries. The columns
  \<^verbatim>\<open>error_message\<close>, \<^verbatim>\<open>started_at\<close> and \<^verbatim>\<open>completed_at\<close> have no default and are
  \<^verbatim>\<open>NULL\<close> (\<^const>\<open>None\<close>) until a statement sets them; the other columns are always
  given a value by the statement that inserts the row or by their default.
\<close>

record print_job =
  printer_id :: int
  template_id :: int
  variables_json :: string
  tspl_content :: string
  status :: string
  priority :: int
  retry_count :: int
  error_message :: "string option"
  copies :: int
  submitted_by :: string
  created_at :: Time
  started_at :: "Time option"
  completed_at :: "Time option"

text \<open>
  A number in a counter column. SQLite's integers have 64 bits; a sum of integers that
  leaves their range is stored as a floating-point number, whose value is not tracked
  here (\<open>SqlReal\<close>).
\<close>

datatype SqlNumber = SqlInteger int | SqlReal

fun sqliteAdd :: "SqlNumber \<Rightarrow> int \<Rightarrow> SqlNumber" where
  "sqliteAdd (SqlInteger a) n =
     (if - (2 ^ 63) \<le> a + n \<and> a + n < 2 ^ 63 then SqlInteger (a + n) else SqlReal)"
| "sqliteAdd SqlReal n = SqlReal"

text \<open>The columns of the table \<^verbatim>\<open>printers\<close> that the modelled statements write.\<close>

record printer_row =
  printer_status :: string
  last_seen_at :: "Time option"
  total_prints :: SqlNumber

text \<open>
  The database behind \<^verbatim>\<open>*sql.DB\<close>, shared by the scheduler and the printer manager.
  \<^verbatim>\<open>print_jobs\<close> maps the primary key to the row; \<open>rowids\<close> lists the keys in the order
  the rows were inserted, for the queries that select several rows; \<open>print_jobs_seq\<close>
  is the \<^verbatim>\<open>AUTOINCREMENT\<close> sequence, the largest key ever assigned. \<open>print_counters\<close> is
  keyed by printer and day. When \<open>failing\<close> holds every statement returns an error and
  changes nothing (the database is closed or unreachable). Foreign keys are not
  enforced.
\<close>

record DB =
  print_jobs :: "int \<rightharpoonup> print_job"
  rowids :: "int list"
  print_jobs_seq :: int
  printers_tbl :: "int \<rightharpoonup> printer_row"
  print_counters :: "int \<times> nat \<rightharpoonup> SqlNumber"
  failing :: bool

text \<open>\<^verbatim>\<open>UPDATE print_jobs SET ... WHERE id = ? AND cond\<close>: the new table and the rows affected.\<close>

definition Exec_updateJob ::
  "DB \<Rightarrow> int \<Rightarrow> (print_job \<Rightarrow> bool) \<Rightarrow> (print_job \<Rightarrow> print_job) \<Rightarrow> (DB \<times> nat) option" where
  "Exec_updateJob d jobID cond assign =
    (if failing d then None
     else case print_jobs d jobID of
       None \<Rightarrow> Some (d, 0)
     | Some r \<Rightarrow>
         if cond r then Some (d\<lparr>print_jobs := (print_jobs d)(jobID \<mapsto> assign r)\<rparr>, 1)
         else Some (d, 0))"

text \<open>\<^verbatim>\<open>UPDATE print_jobs SET ... WHERE cond\<close>, over every row.\<close>

definition Exec_updateJobs ::
  "DB \<Rightarrow> (print_job \<Rightarrow> bool) \<Rightarrow> (print_job \<Rightarrow> print_job) \<Rightarrow> DB option" where
  "Exec_updateJobs d cond assign =
    (if failing d then None
     else Some (d\<lparr>print_jobs :=
       (\<lambda>k. map_option (\<lambda>r. if cond r then assign r else r) (print_jobs d k))\<rparr>))"

text \<open>
  \<^verbatim>\<open>SELECT id FROM print_jobs WHERE status = 'pending' ORDER BY priority DESC,
  created_at ASC\<close>: a stable sort by creation time, then a stable sort by descending
  priority; rows that agree on both stay in insertion order.
\<close>

definition Query_pendingIDs :: "DB \<Rightarrow> int list option" where
  "Query_pendingIDs d =
    (if failing d then None
     else Some (map fst
       (sort_key (\<lambda>(k, r). - priority r)
         (sort_key (\<lambda>(k, r). created_at r)
           (filter (\<lambda>(k, r). status r = JobStatusPending)
             (concat (map (\<lambda>k. case print_jobs d k of None \<Rightarrow> [] | Some r \<Rightarrow> [(k, r)])
               (rowids d))))))))"

text \<open>
  The key \<^verbatim>\<open>AUTOINCREMENT\<close> gives the next row: one more than the largest key that the
  table holds or ever held. Keys are unbounded here; SQLite refuses the insert once the
  largest 64-bit key has been used.
\<close>

definition nextRowid :: "DB \<Rightarrow> int" where
  "nextRowid d = fold max (rowids d) (print_jobs_seq d) + 1"

text \<open>
  The \<^verbatim>\<open>INSERT\<close> of \<^verbatim>\<open>Enqueue\<close>, with \<^verbatim>\<open>LastInsertId\<close>. It names eight columns;
  \<^verbatim>\<open>retry_count\<close> and \<^verbatim>\<open>created_at\<close> take their defaults and the other three stay
  \<^verbatim>\<open>NULL\<close>. A status outside the \<^verbatim>\<open>CHECK\<close> list fails the statement.
\<close>

definition Exec_insertJob :: "DB \<Rightarrow> Job \<Rightarrow> Time \<Rightarrow> (DB \<times> int) option" where
  "Exec_insertJob d job now =
    (if failing d \<or> \<not> validJobStatus (Status job) then None
     else let jobID = nextRowid d in
       Some (d\<lparr>print_jobs := (print_jobs d)(jobID \<mapsto>
                 \<lparr>printer_id = PrinterID job,
                  template_id = TemplateID job,
                  variables_json = VariablesJSON job,
                  tspl_content = TSPLContent job,
                  status = Status job,
                  priority = Priority job,
                  retry_count = 0,
                  error_message = None,
                  copies = Copies job,
                  submitted_by = SubmittedBy job,
                  created_at = now,
                  started_at = None,
                  completed_at = None\<rparr>),
               rowids := rowids d @ [jobID],
               print_jobs_seq := jobID\<rparr>,
             jobID))"

text \<open>
  \<^verbatim>\<open>UpdatePrinterStatus\<close> and \<^verbatim>\<open>IncrementPrinterPrints\<close> of \<^verbatim>\<open>queries.go\<close>. The callers
  drop the statement's error, so a failed statement is the unchanged database. The
  \<^verbatim>\<open>CHECK\<close> list of \<^verbatim>\<open>printers.status\<close> has no \<^verbatim>\<open>busy\<close>.
\<close>

definition Exec_UpdatePrinterStatus :: "DB \<Rightarrow> string \<Rightarrow> int \<Rightarrow> Time \<Rightarrow> DB" where
  "Exec_UpdatePrinterStatus d st printerID now =
    (if failing d \<or> st \<notin> {''online'', ''offline'', ''paused'', ''error'', ''unknown''} then d
     else case printers_tbl d printerID of
       None \<Rightarrow> d
     | Some r \<Rightarrow> d\<lparr>printers_tbl := (printers_tbl d)(printerID \<mapsto>
                     r\<lparr>printer_status := st, last_seen_at := Some now\<rparr>)\<rparr>)"

definition Exec_IncrementPrinterPrints :: "DB \<Rightarrow> int \<Rightarrow> int \<Rightarrow> DB" where
  "Exec_IncrementPrinterPrints d n printerID =
    (if failing d then d
     else case printers_tbl d printerID of
       None \<Rightarrow> d
     | Some r \<Rightarrow> d\<lparr>printers_tbl := (printers_tbl d)(printerID \<mapsto>
                     r\<lparr>total_prints := sqliteAdd (total_prints r) n\<rparr>)\<rparr>)"

text \<open>The day of an instant, for \<^verbatim>\<open>time.Now().Format("2006-01-02")\<close>; instants are seconds.\<close>

definition dateOf :: "Time \<Rightarrow> nat" where
  "dateOf t = t div 86400"

text \<open>The upsert of \<^verbatim>\<open>incrementPrintCounter\<close> into \<^verbatim>\<open>print_counters\<close>.\<close>

definition Exec_upsertCounter :: "DB \<Rightarrow> int \<Rightarrow> nat \<Rightarrow> int \<Rightarrow> DB" where
  "Exec_upsertCounter d printerID day n =
    (if failing d then d
     else d\<lparr>print_counters := (print_counters d)((printerID, day) \<mapsto>
       (case print_counters d (printerID, day) of
          None \<Rightarrow> SqlInteger n
        | Some c \<Rightarrow> sqliteAdd c n))\<rparr>)"

subsection \<open>Errors\<close>

text \<open>
  One constructor for each error the modelled functions build. A constructor's string is
  the text of the underlying driver or network error; \<open>FailedToRecoverJobs\<close> wraps the
  error of \<^verbatim>\<open>recoverJobs\<close>.
\<close>

datatype error =
    JobNotFound int
  | FailedToQueryJob string
  | FailedToInsertJob
  | FailedToCancelJob
  | JobCannotBeCancelled
  | FailedToPauseJob
  | JobCannotBePaused
  | OnlyPausedJobsCanBeResumed
  | PrinterIsPaused
  | FailedToResetProcessingJobs
  | FailedToQueryPendingJobs
  | FailedToRecoverJobs error
  | ErrPrinterNotFound
  | ErrPrinterOffline
  | ErrConnectionFailed string
  | ErrInvalidStatus
  | ErrPrinterCannotPrint
  | NetError string

text \<open>\<^verbatim>\<open>err.Error()\<close> for the errors \<^verbatim>\<open>Print\<close> returns.\<close>

fun errorText :: "error \<Rightarrow> string" where
  "errorText ErrPrinterNotFound = ''printer not found''"
| "errorText ErrPrinterOffline = ''printer is offline''"
| "errorText (ErrConnectionFailed e) = ''connection failed: '' @ e"
| "errorText ErrInvalidStatus = ''invalid status response''"
| "errorText ErrPrinterCannotPrint = ''printer cannot print in current state''"
| "errorText (NetError e) = e"
| "errorText other = ''''"

subsection \<open>The printer registry and the network\<close>

text \<open>
  The Go struct \<^verbatim>\<open>Printer\<close>, without its resolution and label dimensions, which no
  modelled function reads. The fields are prefixed: \<^verbatim>\<open>ID\<close> and \<^verbatim>\<open>Status\<close> are fields
  of \<^typ>\<open>Job\<close> too. \<^verbatim>\<open>TotalPrints\<close> is an \<^verbatim>\<open>int64\<close>: a 64-bit word, whose
  addition wraps around.
\<close>

record Printer =
  P_ID :: int
  P_Name :: string
  P_IPAddress :: string
  P_Port :: int
  P_Status :: string
  P_LastSeenAt :: "Time option"
  P_TotalPrints :: "64 word"

text \<open>
  A cached \<^verbatim>\<open>net.Conn\<close>: \<open>Live\<close>, or \<open>Stale\<close> when the peer has dropped it since it
  was opened, so that a write on it fails.
\<close>

datatype Conn = Live | Stale

text \<open>
  A \<^verbatim>\<open>conn.Read\<close> returns bytes, an error that ends the read loop quietly
  (\<^verbatim>\<open>io.EOF\<close> or \<^verbatim>\<open>context.DeadlineExceeded\<close>: \<open>ReadEOF\<close>), or another error.
\<close>

datatype ReadResult = ReadBytes "byte list" | ReadEOF | ReadFailed string

text \<open>
  How the endpoint of a printer behaves during one operation: the error of a dial
  (\<^const>\<open>None\<close> when it succeeds), the error of a write on a live connection, and what
  the successive reads after a status poll return.
\<close>

record Device =
  dialError :: "string option"
  writeError :: "string option"
  reads :: "ReadResult list"

subsection \<open>The state\<close>

datatype Goroutine = Worker int | Dispatcher

text \<open>
  The scheduler (\<^verbatim>\<open>Queue\<close>), the printer manager, the store they share, and their
  environment, in one record.
  \<^item> \<open>db\<close>: the database.
  \<^item> Of \<^verbatim>\<open>Queue\<close>: \<open>config\<close>, \<open>workers\<close>, the buffered channel \<open>jobCh\<close> (oldest
    identifier first), the map \<open>pausedPrinters\<close>, \<open>running\<close>, and its three
    collaborators, each an interface value that may be nil: \<open>printerManagerSet\<close> says
    whether \<^verbatim>\<open>q.printerManager\<close> is the printer manager of this state,
    \<open>tsplGenerator\<close> is \<^verbatim>\<open>GenerateFromTemplate\<close> (a message on the left for its error),
    \<open>webhookSenderSet\<close> says whether a webhook sender is set.
  \<^item> Of \<^verbatim>\<open>PrinterManager\<close>: the registry \<open>printers\<close>, the cached \<open>connections\<close>, and
    whether its own webhook sender is set.
  \<^item> The environment: the \<open>clock\<close> that \<^verbatim>\<open>time.Now()\<close> reads, and the \<open>devices\<close>
    behind the printers' addresses.
  \<^item> What the functions leave behind outside the store: the \<open>timers\<close> started by
    \<^verbatim>\<open>time.AfterFunc\<close> (delay and job), the \<open>goroutines\<close> started, the webhook events
    sent (\<open>jobEvents\<close>, \<open>statusChanges\<close>), the calls of \<^verbatim>\<open>Print\<close> (printer, content,
    copies) and the data written to each device (\<open>transmitted\<close>).
\<close>

record World =
  db :: DB
  config :: QueueConfig
  workers :: int
  jobCh :: "int list"
  pausedPrinters :: "int \<rightharpoonup> bool"
  running :: bool
  printerManagerSet :: bool
  tsplGenerator :: "(int \<Rightarrow> string \<Rightarrow> string + string) option"
  webhookSenderSet :: bool
  printers :: "int \<rightharpoonup> Printer"
  connections :: "int \<rightharpoonup> Conn"
  pmWebhookSenderSet :: bool
  clock :: Time
  devices :: "int \<Rightarrow> Device"
  timers :: "(Duration \<times> int) list"
  goroutines :: "Goroutine list"
  jobEvents :: "(string \<times> int \<times> int \<times> JobStatus \<times> string) list"
  statusChanges :: "(int \<times> string \<times> string \<times> string) list"
  printCalls :: "(int \<times> string \<times> int) list"
  transmitted :: "(int \<times> string) list"

subsection \<open>The scheduler\<close>

text \<open>
  \<^verbatim>\<open>select { case q.jobCh <- id: default: }\<close> on the channel of capacity 1000: the
  identifier is queued unless the buffer is full.
\<close>

definition offer :: "World \<Rightarrow> int \<Rightarrow> World" where
  "offer w jobID = (if length (jobCh w) < 1000 then w\<lparr>jobCh := jobCh w @ [jobID]\<rparr> else w)"

text \<open>
  \<^verbatim>\<open>updateJobStatus\<close> sets four columns of the row at once and drops the statement's
  error, also the one of a status outside the column's \<^verbatim>\<open>CHECK\<close> list. A nil
  \<^verbatim>\<open>*time.Time\<close> is stored as \<^verbatim>\<open>NULL\<close>.
\<close>

definition updateJobStatus ::
  "World \<Rightarrow> int \<Rightarrow> JobStatus \<Rightarrow> string \<Rightarrow> Time option \<Rightarrow> Time option \<Rightarrow> World" where
  "updateJobStatus w jobID st errMsg startedAt completedAt =
    (if \<not> validJobStatus st then w
     else case Exec_updateJob (db w) jobID (\<lambda>r. True)
            (\<lambda>r. r\<lparr>status := st, error_message := Some errMsg,
                    started_at := startedAt, completed_at := completedAt\<rparr>) of
       None \<Rightarrow> w
     | Some (d, affected) \<Rightarrow> w\<lparr>db := d\<rparr>)"

definition incrementRetryCount :: "World \<Rightarrow> int \<Rightarrow> World" where
  "incrementRetryCount w jobID =
    (case Exec_updateJob (db w) jobID (\<lambda>r. True)
            (\<lambda>r. r\<lparr>retry_count := retry_count r + 1\<rparr>) of
       None \<Rightarrow> w
     | Some (d, affected) \<Rightarrow> w\<lparr>db := d\<rparr>)"

definition updateJobTSPL :: "World \<Rightarrow> int \<Rightarrow> string \<Rightarrow> World" where
  "updateJobTSPL w jobID tspl =
    (case Exec_updateJob (db w) jobID (\<lambda>r. True) (\<lambda>r. r\<lparr>tspl_content := tspl\<rparr>) of
       None \<Rightarrow> w
     | Some (d, affected) \<Rightarrow> w\<lparr>db := d\<rparr>)"

definition incrementPrintCounter :: "World \<Rightarrow> int \<Rightarrow> int \<Rightarrow> World" where
  "incrementPrintCounter w printerID n =
    w\<lparr>db := Exec_upsertCounter (db w) printerID (dateOf (clock w)) n\<rparr>"

text \<open>
  \<^verbatim>\<open>GetJob\<close> scans fourteen columns into the struct. \<^verbatim>\<open>MaxRetries\<close> is not among
  them and keeps Go's zero value. \<^verbatim>\<open>Scan\<close> cannot store \<^verbatim>\<open>NULL\<close> in a Go string,
  so a row whose \<^verbatim>\<open>error_message\<close> is \<^verbatim>\<open>NULL\<close> gives the error of the failed query;
  the two timestamps are scanned through \<^verbatim>\<open>sql.NullTime\<close>.
\<close>

definition GetJob :: "World \<Rightarrow> int \<Rightarrow> error + Job" where
  "GetJob w jobID =
    (if failing (db w) then Inl (FailedToQueryJob ''database error'')
     else case print_jobs (db w) jobID of
       None \<Rightarrow> Inl (JobNotFound jobID)
     | Some r \<Rightarrow>
        (case error_message r of
           None \<Rightarrow> Inl (FailedToQueryJob ''converting NULL to string is unsupported'')
         | Some msg \<Rightarrow> Inr
             \<lparr>ID = jobID,
              PrinterID = printer_id r,
              TemplateID = template_id r,
              VariablesJSON = variables_json r,
              TSPLContent = tspl_content r,
              Status = status r,
              Priority = priority r,
              RetryCount = retry_count r,
              MaxRetries = 0,
              Copies = copies r,
              ErrorMessage = msg,
              SubmittedBy = submitted_by r,
              CreatedAt = created_at r,
              StartedAt = started_at r,
              CompletedAt = completed_at r\<rparr>))"

text \<open>
  \<^verbatim>\<open>retryJob\<close>, the callback of the retry timer, and the timer's expiry: the \<open>i\<close>-th
  pending callback runs and is no longer pending.
\<close>

definition retryJob :: "World \<Rightarrow> int \<Rightarrow> World" where
  "retryJob w jobID = offer (updateJobStatus w jobID JobStatusPending '''' None None) jobID"

definition timerFires :: "World \<Rightarrow> nat \<Rightarrow> World" where
  "timerFires w i =
    (if i < length (timers w)
     then retryJob (w\<lparr>timers := take i (timers w) @ drop (Suc i) (timers w)\<rparr>)
            (snd (timers w ! i))
     else w)"

definition sendJobEvent :: "World \<Rightarrow> string \<Rightarrow> int \<Rightarrow> int \<Rightarrow> JobStatus \<Rightarrow> string \<Rightarrow> World" where
  "sendJobEvent w event jobID printerID st errMsg =
    (if webhookSenderSet w
     then w\<lparr>jobEvents := jobEvents w @ [(event, jobID, printerID, st, errMsg)]\<rparr>
     else w)"

definition handleJobFailure :: "World \<Rightarrow> Job \<Rightarrow> string \<Rightarrow> World" where
  "handleJobFailure w job errMsg =
    (if RetryCount job < MaxRetries job then
       let delay = calculateBackoff (config w) (RetryCount job);
           w1 = w\<lparr>timers := timers w @ [(delay, ID job)]\<rparr>
       in incrementRetryCount w1 (ID job)
     else
       let now = clock w;
           w1 = updateJobStatus w (ID job) JobStatusFailed errMsg None (Some now)
       in sendJobEvent w1 ''job_failed'' (ID job) (PrinterID job) JobStatusFailed errMsg)"

text \<open>
  \<^verbatim>\<open>Enqueue\<close> fills in the caller's struct (the second component of the result) and
  inserts the row. It does not look at \<^verbatim>\<open>job.Copies\<close>. The identifier of a row that
  was inserted is at hand, so \<^verbatim>\<open>LastInsertId\<close> has no error here; likewise
  \<^verbatim>\<open>RowsAffected\<close> in \<^verbatim>\<open>CancelJob\<close> and \<^verbatim>\<open>PauseJob\<close>.
\<close>

definition Enqueue :: "World \<Rightarrow> Job \<Rightarrow> (error + int) \<times> Job \<times> World" where
  "Enqueue w job0 =
    (let job1 = (if MaxRetries job0 = 0 then job0\<lparr>MaxRetries := ConfigMaxRetries (config w)\<rparr>
                 else job0);
         job = (if Status job1 = '''' then job1\<lparr>Status := JobStatusPending\<rparr> else job1)
     in case Exec_insertJob (db w) job (clock w) of
          None \<Rightarrow> (Inl FailedToInsertJob, job, w)
        | Some (d, jobID) \<Rightarrow> (Inr jobID, job, offer (w\<lparr>db := d\<rparr>) jobID))"

definition CancelJob :: "World \<Rightarrow> int \<Rightarrow> error option \<times> World" where
  "CancelJob w jobID =
    (case Exec_updateJob (db w) jobID
            (\<lambda>r. status r = JobStatusPending \<or> status r = JobStatusPaused)
            (\<lambda>r. r\<lparr>status := JobStatusCancelled, completed_at := Some (clock w)\<rparr>) of
       None \<Rightarrow> (Some FailedToCancelJob, w)
     | Some (d, affected) \<Rightarrow>
         if affected = 0 then (Some JobCannotBeCancelled, w\<lparr>db := d\<rparr>)
         else (None, w\<lparr>db := d\<rparr>))"

definition PauseJob :: "World \<Rightarrow> int \<Rightarrow> error option \<times> World" where
  "PauseJob w jobID =
    (case Exec_updateJob (db w) jobID
            (\<lambda>r. status r = JobStatusPending \<or> status r = JobStatusProcessing)
            (\<lambda>r. r\<lparr>status := JobStatusPaused\<rparr>) of
       None \<Rightarrow> (Some FailedToPauseJob, w)
     | Some (d, affected) \<Rightarrow>
         if affected = 0 then (Some JobCannotBePaused, w\<lparr>db := d\<rparr>)
         else (None, w\<lparr>db := d\<rparr>))"

text \<open>\<^verbatim>\<open>q.pausedPrinters[id]\<close>: false for a key the map does not hold.\<close>

definition printerPaused :: "World \<Rightarrow> int \<Rightarrow> bool" where
  "printerPaused w printerID =
    (case pausedPrinters w printerID of None \<Rightarrow> False | Some b \<Rightarrow> b)"

definition PausePrinter :: "World \<Rightarrow> int \<Rightarrow> error option \<times> World" where
  "PausePrinter w printerID =
    (let w1 = w\<lparr>pausedPrinters := (pausedPrinters w)(printerID \<mapsto> True)\<rparr>
     in case Exec_updateJobs (db w1)
               (\<lambda>r. printer_id r = printerID \<and> status r = JobStatusPending)
               (\<lambda>r. r\<lparr>status := JobStatusPaused\<rparr>) of
          None \<Rightarrow> (Some FailedToPauseJob, w1)
        | Some d \<Rightarrow> (None, w1\<lparr>db := d\<rparr>))"

definition ResumeJob :: "World \<Rightarrow> int \<Rightarrow> error option \<times> World" where
  "ResumeJob w jobID =
    (case GetJob w jobID of
       Inl err \<Rightarrow> (Some err, w)
     | Inr job \<Rightarrow>
         if Status job \<noteq> JobStatusPaused then (Some OnlyPausedJobsCanBeResumed, w)
         else if printerPaused w (PrinterID job) then (Some PrinterIsPaused, w)
         else (None, offer (updateJobStatus w jobID JobStatusPending '''' None None) jobID))"

text \<open>
  \<^verbatim>\<open>recoverJobs\<close>: the reset of the jobs left processing, then the query of the pending
  jobs, each offered to the channel (an offer to a full channel is dropped, and the loop
  goes on). Scanning an identifier out of a selected row does not fail.
\<close>

definition recoverJobs :: "World \<Rightarrow> error option \<times> World" where
  "recoverJobs w =
    (case Exec_updateJobs (db w) (\<lambda>r. status r = JobStatusProcessing)
            (\<lambda>r. r\<lparr>status := JobStatusPending\<rparr>) of
       None \<Rightarrow> (Some FailedToResetProcessingJobs, w)
     | Some d \<Rightarrow>
        (let w1 = w\<lparr>db := d\<rparr>
         in case Query_pendingIDs (db w1) of
              None \<Rightarrow> (Some FailedToQueryPendingJobs, w1)
            | Some ids \<Rightarrow> (None, foldl offer w1 ids)))"

text \<open>
  \<^verbatim>\<open>Start\<close>: nothing when the scheduler is running; otherwise the recovery, and only
  when it succeeded the \<^verbatim>\<open>go\<close> statements: one worker for each \<open>i\<close> below \<open>workers\<close>,
  then the dispatcher.
\<close>

definition Start :: "World \<Rightarrow> error option \<times> World" where
  "Start w =
    (if running w then (None, w)
     else case recoverJobs (w\<lparr>running := True\<rparr>) of
       (Some err, w2) \<Rightarrow> (Some (FailedToRecoverJobs err), w2)
     | (None, w2) \<Rightarrow>
         (None, w2\<lparr>goroutines := goroutines w2
                     @ map (\<lambda>i. Worker (int i)) [0..<nat (workers w2)] @ [Dispatcher]\<rparr>))"

subsection \<open>The printer manager\<close>

definition connect :: "World \<Rightarrow> int \<Rightarrow> (error + Conn) \<times> World" where
  "connect w printerID =
    (case printers w printerID of
       None \<Rightarrow> (Inl ErrPrinterNotFound, w)
     | Some p \<Rightarrow>
        (case connections w printerID of
           Some conn \<Rightarrow> (Inr conn, w)
         | None \<Rightarrow>
            (case dialError (devices w printerID) of
               Some e \<Rightarrow> (Inl (ErrConnectionFailed e), w)
             | None \<Rightarrow> (Inr Live, w\<lparr>connections := (connections w)(printerID \<mapsto> Live)\<rparr>))))"

definition disconnect :: "World \<Rightarrow> int \<Rightarrow> World" where
  "disconnect w printerID = w\<lparr>connections := (connections w)(printerID := None)\<rparr>"

definition reconnect :: "World \<Rightarrow> int \<Rightarrow> (error + Conn) \<times> World" where
  "reconnect w printerID = connect (disconnect w printerID) printerID"

text \<open>
  \<^verbatim>\<open>conn.Write\<close>: it fails on a stale connection and when the device refuses the
  write; otherwise the device has received the data.
\<close>

definition connWrite :: "World \<Rightarrow> int \<Rightarrow> Conn \<Rightarrow> string \<Rightarrow> string option \<times> World" where
  "connWrite w printerID conn payload =
    (case conn of
       Stale \<Rightarrow> (Some ''broken pipe'', w)
     | Live \<Rightarrow>
        (case writeError (devices w printerID) of
           Some e \<Rightarrow> (Some e, w)
         | None \<Rightarrow> (None, w\<lparr>transmitted := transmitted w @ [(printerID, payload)]\<rparr>)))"

text \<open>The status poll \<^verbatim>\<open>"\x1b!?"\<close> and the length of its response.\<close>

definition statusCommand :: string where
  "statusCommand = [CHR 0x1B, CHR ''!'', CHR ''?'']"

definition statusResponseLength :: nat where
  "statusResponseLength = 4"

text \<open>
  The read loop of \<^verbatim>\<open>CheckStatus\<close>: while fewer than four bytes are read, the next
  read fills the rest of the buffer, ends the loop (\<^verbatim>\<open>io.EOF\<close> or the deadline), or
  fails the poll. A device with nothing more to say has closed the stream.
\<close>

fun readLoop :: "ReadResult list \<Rightarrow> byte list \<Rightarrow> string + byte list" where
  "readLoop [] buf = Inr buf"
| "readLoop (r # rest) buf =
     (if statusResponseLength \<le> length buf then Inr buf
      else case r of
        ReadBytes bs \<Rightarrow> readLoop rest (buf @ take (statusResponseLength - length buf) bs)
      | ReadEOF \<Rightarrow> Inr buf
      | ReadFailed e \<Rightarrow> Inl e)"

text \<open>
  \<^verbatim>\<open>updatePrinterStatus\<close> sets the status and the last-seen time of the registered
  printer, writes the status to the store, and notifies the webhook sender of a change
  (in a goroutine of its own).
\<close>

definition updatePrinterStatus :: "World \<Rightarrow> int \<Rightarrow> string \<Rightarrow> World" where
  "updatePrinterStatus w printerID st =
    (case printers w printerID of
       None \<Rightarrow> w
     | Some p \<Rightarrow>
        (let oldStatus = P_Status p;
             now = clock w;
             w1 = w\<lparr>printers := (printers w)(printerID \<mapsto>
                        p\<lparr>P_Status := st, P_LastSeenAt := Some now\<rparr>),
                    db := Exec_UpdatePrinterStatus (db w) st printerID now\<rparr>
         in if oldStatus \<noteq> st \<and> pmWebhookSenderSet w1
            then w1\<lparr>statusChanges := statusChanges w1 @ [(printerID, P_Name p, oldStatus, st)]\<rparr>
            else w1))"

text \<open>
  The status \<^verbatim>\<open>CheckStatus\<close> returns with an error:
  \<^verbatim>\<open>&PrinterStatus{IsOnline: false, CanPrint: false, LastChecked: time.Now()}\<close>.
\<close>

definition failedStatus :: "Time \<Rightarrow> PrinterStatus" where
  "failedStatus now =
    \<lparr>RawStatus = [0, 0, 0, 0], PrinterState = '''', Warning = '''', Error = '''',
     MediaError = '''', IsOnline = False, CanPrint = False, LastChecked = now\<rparr>"

definition markOffline ::
  "World \<Rightarrow> int \<Rightarrow> error \<Rightarrow> (PrinterStatus option \<times> error option) \<times> World" where
  "markOffline w printerID err =
    ((Some (failedStatus (clock w)), Some err), updatePrinterStatus w printerID ''offline'')"

text \<open>
  The rest of \<^verbatim>\<open>CheckStatus\<close> once the poll is written: the read loop, the short
  response, and the decoding. The response that is decoded has four bytes, so the
  branch for a response that \<^const>\<open>parseStatus\<close> cannot index is never taken.
\<close>

definition readStatus ::
  "World \<Rightarrow> int \<Rightarrow> (PrinterStatus option \<times> error option) \<times> World" where
  "readStatus w printerID =
    (case readLoop (reads (devices w printerID)) [] of
       Inl e \<Rightarrow> markOffline (disconnect w printerID) printerID (ErrConnectionFailed e)
     | Inr response \<Rightarrow>
         if length response < statusResponseLength
         then ((Some (failedStatus (clock w)), Some ErrInvalidStatus),
               updatePrinterStatus w printerID ''error'')
         else (case decodeResponse (clock w) response of
                 None \<Rightarrow> ((None, Some ErrInvalidStatus), w)
               | Some st \<Rightarrow>
                   ((Some st, None),
                    updatePrinterStatus w printerID (determineStatusString st))))"

text \<open>
  \<^verbatim>\<open>CheckStatus\<close> returns a status and an error, either of which may be nil. A failed
  write of the poll is tried once more on a new connection.
\<close>

definition CheckStatus ::
  "World \<Rightarrow> int \<Rightarrow> (PrinterStatus option \<times> error option) \<times> World" where
  "CheckStatus w printerID =
    (case printers w printerID of
       None \<Rightarrow> ((None, Some ErrPrinterNotFound), w)
     | Some p \<Rightarrow>
        (case connect w printerID of
           (Inl err, w1) \<Rightarrow> markOffline w1 printerID err
         | (Inr conn, w1) \<Rightarrow>
            (case connWrite w1 printerID conn statusCommand of
               (None, w2) \<Rightarrow> readStatus w2 printerID
             | (Some e, w2) \<Rightarrow>
                (case reconnect w2 printerID of
                   (Inl err, w3) \<Rightarrow> markOffline w3 printerID err
                 | (Inr conn', w3) \<Rightarrow>
                    (case connWrite w3 printerID conn' statusCommand of
                       (Some e', w4) \<Rightarrow>
                         markOffline (disconnect w4 printerID) printerID (NetError e')
                     | (None, w4) \<Rightarrow> readStatus w4 printerID)))))"

definition SendCommand :: "World \<Rightarrow> int \<Rightarrow> string \<Rightarrow> error option \<times> World" where
  "SendCommand w printerID tspl =
    (case printers w printerID of
       None \<Rightarrow> (Some ErrPrinterNotFound, w)
     | Some p \<Rightarrow>
        (case connect w printerID of
           (Inl err, w1) \<Rightarrow> (Some ErrPrinterOffline, w1)
         | (Inr conn, w1) \<Rightarrow>
            (case connWrite w1 printerID conn tspl of
               (Some e, w2) \<Rightarrow> (Some (ErrConnectionFailed e), disconnect w2 printerID)
             | (None, w2) \<Rightarrow> (None, w2))))"

text \<open>\<^verbatim>\<open>for i := 1; i < copies; i++ { fullTSPL += "\r\n" + tspl }\<close>, for \<open>n\<close> rounds.\<close>

fun appendCopies :: "nat \<Rightarrow> string \<Rightarrow> string \<Rightarrow> string" where
  "appendCopies 0 tspl fullTSPL = fullTSPL"
| "appendCopies (Suc n) tspl fullTSPL =
     appendCopies n tspl (fullTSPL @ [CHR 0x0D, CHR 0x0A] @ tspl)"

text \<open>
  \<^verbatim>\<open>Print\<close>. Each call is recorded in \<open>printCalls\<close>. After the transmission it adds
  \<open>copies\<close> to the registered printer's \<^verbatim>\<open>TotalPrints\<close>
  (\<^verbatim>\<open>p.TotalPrints += int64(copies)\<close>, in 64 bits) and to the column
  \<^verbatim>\<open>total_prints\<close>. \<^verbatim>\<open>CheckStatus\<close> returns a status whenever it returns no error;
  the branch for neither is there only to make the case distinction complete.
\<close>

definition Print :: "World \<Rightarrow> int \<Rightarrow> string \<Rightarrow> int \<Rightarrow> error option \<times> World" where
  "Print w0 printerID tspl n =
    (let w = w0\<lparr>printCalls := printCalls w0 @ [(printerID, tspl, n)]\<rparr>
     in case CheckStatus w printerID of
          ((st, Some err), w1) \<Rightarrow> (Some err, w1)
        | ((None, None), w1) \<Rightarrow> (Some ErrInvalidStatus, w1)
        | ((Some st, None), w1) \<Rightarrow>
            if \<not> IsOnline st then (Some ErrPrinterOffline, w1)
            else if \<not> CanPrint st then (Some ErrPrinterCannotPrint, w1)
            else
              (case SendCommand w1 printerID (appendCopies (nat (n - 1)) tspl tspl) of
                 (Some err, w2) \<Rightarrow> (Some err, w2)
               | (None, w2) \<Rightarrow>
                   (None,
                    w2\<lparr>printers :=
                          (case printers w2 printerID of
                             None \<Rightarrow> printers w2
                           | Some p \<Rightarrow> (printers w2)(printerID \<mapsto>
                               p\<lparr>P_TotalPrints := P_TotalPrints p + word_of_int n\<rparr>)),
                        db := Exec_IncrementPrinterPrints (db w2) n printerID\<rparr>)))"

subsection \<open>The worker\<close>

text \<open>
  After a successful print \<^verbatim>\<open>processJob\<close> calls
  \<^verbatim>\<open>q.printerManager.IncrementPrintCount(job.PrinterID, job.Copies)\<close> and drops its
  result. The repository's files declare this method in \<^verbatim>\<open>PrinterManagerInterface\<close>
  and call it, but no type in them implements it. It is therefore a parameter of the
  worker, \<open>incrementPrintCount\<close>: whatever it does to the state it is given.
\<close>

text \<open>
  The second half of \<^verbatim>\<open>processJob\<close>, from \<^verbatim>\<open>now := time.Now()\<close>: the job, with its
  content resolved, is marked processing, printed, and marked completed; then
  \<open>incrementPrintCount\<close> is called and the daily counter is incremented.
\<close>

definition processJob_print ::
  "(World \<Rightarrow> int \<Rightarrow> int \<Rightarrow> World) \<Rightarrow> World \<Rightarrow> Job \<Rightarrow> World" where
  "processJob_print incrementPrintCount w job =
    (let w1 = updateJobStatus w (ID job) JobStatusProcessing '''' (Some (clock w)) None;
         w2 = sendJobEvent w1 ''job_started'' (ID job) (PrinterID job) JobStatusProcessing ''''
     in if \<not> printerManagerSet w2
        then handleJobFailure w2 job ''printer manager not configured''
        else
          (case Print w2 (PrinterID job) (TSPLContent job) (Copies job) of
             (Some err, w3) \<Rightarrow> handleJobFailure w3 job (errorText err)
           | (None, w3) \<Rightarrow>
              (let w4 = updateJobStatus w3 (ID job) JobStatusCompleted '''' None
                          (Some (clock w3));
                   w5 = sendJobEvent w4 ''job_completed'' (ID job) (PrinterID job)
                          JobStatusCompleted '''';
                   w6 = incrementPrintCount w5 (PrinterID job) (Copies job)
               in incrementPrintCounter w6 (PrinterID job) (Copies job))))"

text \<open>
  \<^verbatim>\<open>processJob\<close>: the job is fetched again; one that is no longer pending is left
  alone; one whose printer is paused is parked; the content is generated when it is
  empty and a generator is set.
\<close>

definition processJob ::
  "(World \<Rightarrow> int \<Rightarrow> int \<Rightarrow> World) \<Rightarrow> World \<Rightarrow> int \<Rightarrow> World" where
  "processJob incrementPrintCount w jobID =
    (case GetJob w jobID of
       Inl err \<Rightarrow> w
     | Inr job \<Rightarrow>
         if Status job \<noteq> JobStatusPending then w
         else if printerPaused w (PrinterID job)
         then updateJobStatus w jobID JobStatusPaused '''' None None
         else
           (case (if TSPLContent job = '''' then tsplGenerator w else None) of
              None \<Rightarrow> processJob_print incrementPrintCount w job
            | Some generate \<Rightarrow>
               (case generate (TemplateID job) (VariablesJSON job) of
                  Inl e \<Rightarrow> handleJobFailure w job (''TSPL generation failed: '' @ e)
                | Inr tspl \<Rightarrow>
                    processJob_print incrementPrintCount (updateJobTSPL w jobID tspl)
                      (job\<lparr>TSPLContent := tspl\<rparr>))))"

subsection \<open>A concrete state\<close>

text \<open>
  A store with three jobs for printer 7: job 1 pending, job 2 left processing, job 3
  paused; and a scheduler that is not running, with the default configuration, a printer
  manager and a webhook sender, no generator, and printer 7 registered behind a device
  that accepts connections and writes and answers a status poll with \<^verbatim>\<open>@@@@\<close>.
\<close>

definition exampleRow :: print_job where
  "exampleRow =
    \<lparr>printer_id = 7, template_id = 3, variables_json = ''{}'', tspl_content = ''PRINT 1'',
     status = JobStatusPending, priority = 5, retry_count = 0, error_message = Some '''',
     copies = 2, submitted_by = ''api'', created_at = 100, started_at = None,
     completed_at = None\<rparr>"

definition exampleDB :: DB where
  "exampleDB =
    \<lparr>print_jobs = [1 \<mapsto> exampleRow,
                   2 \<mapsto> exampleRow\<lparr>status := JobStatusProcessing, started_at := Some 900\<rparr>,
                   3 \<mapsto> exampleRow\<lparr>status := JobStatusPaused\<rparr>],
     rowids = [1, 2, 3],
     print_jobs_seq = 3,
     printers_tbl = [7 \<mapsto> \<lparr>printer_status = ''online'', last_seen_at = None,
                             total_prints = SqlInteger 0\<rparr>],
     print_counters = Map.empty,
     failing = False\<rparr>"

definition readyDevice :: Device where
  "readyDevice = \<lparr>dialError = None, writeError = None,
                   reads = [ReadBytes [0x40, 0x40, 0x40, 0x40]]\<rparr>"

definition examplePrinter :: Printer where
  "examplePrinter =
    \<lparr>P_ID = 7, P_Name = ''label-1'', P_IPAddress = ''10.0.0.7'', P_Port = 9100,
     P_Status = ''online'', P_LastSeenAt = None, P_TotalPrints = 0\<rparr>"

definition exampleWorld :: World where
  "exampleWorld =
    \<lparr>db = exampleDB,
     config = defaultQueueConfig,
     workers = 2,
     jobCh = [],
     pausedPrinters = Map.empty,
     running = False,
     printerManagerSet = True,
     tsplGenerator = None,
     webhookSenderSet = True,
     printers = [7 \<mapsto> examplePrinter],
     connections = Map.empty,
     pmWebhookSenderSet = False,
     clock = 1000,
     devices = (\<lambda>printerID. readyDevice),
     timers = [],
     goroutines = [],
     jobEvents = [],
     statusChanges = [],
     printCalls = [],
     transmitted = []\<rparr>"

text \<open>A job as a caller hands it to \<^verbatim>\<open>Enqueue\<close>, with every field it does not set zero.\<close>

definition exampleJob :: Job where
  "exampleJob =
    \<lparr>ID = 0, PrinterID = 7, TemplateID = 3, VariablesJSON = ''{}'', TSPLContent = '''',
     Status = '''', Priority = 5, RetryCount = 0, MaxRetries = 0, Copies = 0,
     ErrorMessage = '''', SubmittedBy = ''api'', CreatedAt = 0, StartedAt = None,
     CompletedAt = None\<rparr>"

text \<open>
  The struct of job 1 as a caller of \<^verbatim>\<open>handleJobFailure\<close> may hold it, with three
  retries allowed.
\<close>

definition exampleRetryJob :: Job where
  "exampleRetryJob =
    \<lparr>ID = 1, PrinterID = 7, TemplateID = 3, VariablesJSON = ''{}'', TSPLContent = ''PRINT 1'',
     Status = JobStatusPending, Priority = 5, RetryCount = 0, MaxRetries = 3, Copies = 2,
     ErrorMessage = '''', SubmittedBy = ''api'', CreatedAt = 100, StartedAt = None,
     CompletedAt = None\<rparr>"


section \<open>Theorems\<close>

subsection \<open>Backoff\<close>

lemma calculateBackoff_small:
  "map (\<lambda>n. sint (calculateBackoff defaultQueueConfig n)) [0, 1, 2, 3, 4, 5, 6] =
     [10000000000, 20000000000, 40000000000, 80000000000, 160000000000,
      300000000000, 300000000000]"
  by (simp add: calculateBackoff_def defaultQueueConfig_def Second_def Minute_def
      word_sless_alt)

lemma unat_small_int:
  assumes "0 \<le> k" and "k < 63"
  shows "unat (word_of_int k :: 64 word) = nat k"
proof -
  from assms obtain m where m: "k = int m" "m < 63"
    by (metis nat_less_iff nonneg_int_cases of_nat_numeral nat_int)
  have "unat (word_of_nat m :: 64 word) = m"
    using m(2) by (simp add: unat_of_nat)
  then show ?thesis
    by (simp add: m(1))
qed

lemma sint_zero_iff: "sint (w :: 64 word) = 0 \<longleftrightarrow> w = 0"
proof
  assume "sint w = 0"
  then have "(word_of_int (sint w) :: 64 word) = 0"
    by simp
  then show "w = 0"
    by simp
qed simp

lemma calculateBackoff_in_range:
  assumes n: "0 \<le> n"
    and base: "base = (if RetryDelay cfg = 0 then 10 * Second else RetryDelay cfg)"
    and pos: "0 \<le> sint base"
    and fit: "sint base * 2 ^ nat n < 2 ^ 63"
  shows "sint (calculateBackoff cfg n)
     = min (sint base * 2 ^ nat n) (sint (5 * Minute :: Duration))"
proof -
  have "base \<noteq> 0"
    by (simp add: base Second_def)
  then have "sint base \<noteq> 0"
    by (simp add: sint_zero_iff)
  with pos have one: "1 \<le> sint base"
    by simp
  have "1 * (2 :: int) ^ nat n \<le> sint base * 2 ^ nat n"
    using one by (intro mult_right_mono) simp_all
  with fit have "(2 :: int) ^ nat n < 2 ^ 63"
    by linarith
  then have "nat n < 63"
    by (rule power_less_imp_less_exp [rotated]) simp
  with n have small: "n < 63"
    by simp
  have count: "unat (word_of_int n :: 64 word) = nat n"
    using n small by (rule unat_small_int)
  define K where "K = sint base * 2 ^ nat n"
  have K: "0 \<le> K" "K < 2 ^ 63"
    using pos fit by (simp_all add: K_def)
  have prod: "base * push_bit (nat n) 1 = word_of_int K"
    by (simp add: K_def wi_hom_syms word_of_int_2p)
  have "sint (word_of_int K :: 64 word) = signed_take_bit 63 K"
    by (simp add: sint_sbintrunc')
  also have "\<dots> = K"
    using K by (intro signed_take_bit_int_eq_self) simp_all
  finally have "sint (word_of_int K :: 64 word) = K" .
  then have product: "sint (base * push_bit (nat n) 1 :: 64 word) = sint base * 2 ^ nat n"
    unfolding prod K_def .
  then have product': "sint (base * 2 ^ nat n :: 64 word) = sint base * 2 ^ nat n"
    by simp
  show ?thesis
    by (simp add: calculateBackoff_def Let_def base [symmetric] count product' word_sless_alt
        min_def)
qed

text \<open>
  In the range of \<open>calculateBackoff_in_range\<close> the delay does not decrease from one
  attempt to a later one.
\<close>

lemma calculateBackoff_mono_in_range:
  assumes m: "0 \<le> m" and mn: "m \<le> n"
    and base: "base = (if RetryDelay cfg = 0 then 10 * Second else RetryDelay cfg)"
    and pos: "0 \<le> sint base"
    and fit: "sint base * 2 ^ nat n < 2 ^ 63"
  shows "sint (calculateBackoff cfg m) \<le> sint (calculateBackoff cfg n)"
proof -
  have "(2 :: int) ^ nat m \<le> 2 ^ nat n"
    using mn by (intro power_increasing) simp_all
  then have step: "sint base * 2 ^ nat m \<le> sint base * 2 ^ nat n"
    using pos by (rule mult_left_mono)
  with fit have fit0: "sint base * 2 ^ nat m < 2 ^ 63"
    by simp
  have n: "0 \<le> n"
    using m mn by simp
  show ?thesis
    unfolding calculateBackoff_in_range [OF m base pos fit0]
      calculateBackoff_in_range [OF n base pos fit]
    using step by (simp add: min_def)
qed




subsection \<open>Status decoding\<close>

lemma parseStatus_normal:
  "decodeResponse now [0x40, 0x40, 0x40, 0x40] = Some
     \<lparr>RawStatus = [0x40, 0x40, 0x40, 0x40], PrinterState = ''normal'', Warning = ''none'',
      Error = ''none'', MediaError = ''none'', IsOnline = True, CanPrint = True,
      LastChecked = now\<rparr>"
  by (simp add: decodeResponse_def lookupOrUnknown_def printerStateMap_def warningMap_def
      errorMap_def mediaErrorMap_def)

lemma errorMap_none: "lookupOrUnknown errorMap b = ''none'' \<longleftrightarrow> b = 0x40"
  by (simp add: lookupOrUnknown_def errorMap_def)

lemma printerState_P: "lookupOrUnknown printerStateMap 0x50 = ''paused''"
  by (simp add: lookupOrUnknown_def printerStateMap_def)

text \<open>
  C4, as the code has it. A response whose first byte is \<^verbatim>\<open>'P'\<close> decodes to the printer
  state \<open>paused\<close> whatever the other three bytes are. Its composite status is
  \<open>paused\<close> when the third byte, the error byte, is \<^verbatim>\<open>'@'\<close> (no error), whatever the
  warning and media-error bytes are, and \<open>error\<close> for every other error byte.
\<close>

theorem paused_byte_decoding:
  "\<exists>s. decodeResponse now [0x50, b1, b2, b3] = Some s
       \<and> PrinterState s = ''paused''
       \<and> determineStatusString s = (if b2 = 0x40 then ''paused'' else ''error'')"
  by (simp add: decodeResponse_def determineStatusString_def printerState_P errorMap_none)

text \<open>
  C4, as the specification states it, fails: the response \<^verbatim>\<open>P@A@\<close> (paused, with the
  error byte for an overheated head) has the composite status \<open>error\<close>.
\<close>

theorem paused_byte_error_counterexample:
  "map_option PrinterState (decodeResponse 0 [0x50, 0x40, 0x41, 0x40]) = Some ''paused''
   \<and> map_option Error (decodeResponse 0 [0x50, 0x40, 0x41, 0x40]) = Some ''head_overheat''
   \<and> map_option determineStatusString (decodeResponse 0 [0x50, 0x40, 0x41, 0x40])
       = Some ''error''
   \<and> map_option determineStatusString (decodeResponse 0 [0x50, 0x40, 0x41, 0x40])
       \<noteq> Some ''paused''"
  by (simp add: decodeResponse_def determineStatusString_def lookupOrUnknown_def
      printerStateMap_def errorMap_def)

text \<open>
  C5. The composite status follows the fixed precedence: \<open>offline\<close> when the status is
  not online; otherwise \<open>error\<close> when an error is decoded (the error classification is
  not \<open>none\<close>, or the printer state is \<open>error\<close>); otherwise \<open>paused\<close> when the printer
  state is \<open>paused\<close>; otherwise \<open>error\<close> when the media-error classification is not
  \<open>none\<close>; otherwise \<open>busy\<close> when the printer state is \<open>feeding\<close>; otherwise
  \<open>online\<close>.
\<close>

theorem determineStatusString_precedence:
  "determineStatusString s = compositeByPrecedence s"
  by (simp add: determineStatusString_def compositeByPrecedence_def)

theorem determineStatusString_precedence_witness:
  "determineStatusString
     \<lparr>RawStatus = [0x50, 0x40, 0x40, 0x41], PrinterState = ''paused'', Warning = ''none'',
      Error = ''none'', MediaError = ''paper_empty'', IsOnline = True, CanPrint = False,
      LastChecked = 0\<rparr>
   = compositeByPrecedence
     \<lparr>RawStatus = [0x50, 0x40, 0x40, 0x41], PrinterState = ''paused'', Warning = ''none'',
      Error = ''none'', MediaError = ''paper_empty'', IsOnline = True, CanPrint = False,
      LastChecked = 0\<rparr>
   \<and> compositeByPrecedence
     \<lparr>RawStatus = [0x50, 0x40, 0x40, 0x41], PrinterState = ''paused'', Warning = ''none'',
      Error = ''none'', MediaError = ''paper_empty'', IsOnline = True, CanPrint = False,
      LastChecked = 0\<rparr> = ''paused''"
  using determineStatusString_precedence
    [of "\<lparr>RawStatus = [0x50, 0x40, 0x40, 0x41], PrinterState = ''paused'', Warning = ''none'',
      Error = ''none'', MediaError = ''paper_empty'', IsOnline = True, CanPrint = False,
      LastChecked = 0\<rparr>"]
  by (simp add: compositeByPrecedence_def)

subsection \<open>Statuses and single-row updates\<close>

lemma JobStatus_distinct [simp]:
  "JobStatusPending \<noteq> JobStatusProcessing" "JobStatusPending \<noteq> JobStatusCompleted"
  "JobStatusPending \<noteq> JobStatusFailed" "JobStatusPending \<noteq> JobStatusPaused"
  "JobStatusPending \<noteq> JobStatusCancelled"
  "JobStatusProcessing \<noteq> JobStatusPending" "JobStatusProcessing \<noteq> JobStatusCompleted"
  "JobStatusProcessing \<noteq> JobStatusFailed" "JobStatusProcessing \<noteq> JobStatusPaused"
  "JobStatusProcessing \<noteq> JobStatusCancelled"
  "JobStatusCompleted \<noteq> JobStatusPending" "JobStatusCompleted \<noteq> JobStatusProcessing"
  "JobStatusCompleted \<noteq> JobStatusFailed" "JobStatusCompleted \<noteq> JobStatusPaused"
  "JobStatusCompleted \<noteq> JobStatusCancelled"
  "JobStatusFailed \<noteq> JobStatusPending" "JobStatusFailed \<noteq> JobStatusProcessing"
  "JobStatusFailed \<noteq> JobStatusCompleted" "JobStatusFailed \<noteq> JobStatusPaused"
  "JobStatusFailed \<noteq> JobStatusCancelled"
  "JobStatusPaused \<noteq> JobStatusPending" "JobStatusPaused \<noteq> JobStatusProcessing"
  "JobStatusPaused \<noteq> JobStatusCompleted" "JobStatusPaused \<noteq> JobStatusFailed"
  "JobStatusPaused \<noteq> JobStatusCancelled"
  "JobStatusCancelled \<noteq> JobStatusPending" "JobStatusCancelled \<noteq> JobStatusProcessing"
  "JobStatusCancelled \<noteq> JobStatusCompleted" "JobStatusCancelled \<noteq> JobStatusFailed"
  "JobStatusCancelled \<noteq> JobStatusPaused"
  by (simp_all add: JobStatusPending_def JobStatusProcessing_def JobStatusCompleted_def
      JobStatusFailed_def JobStatusPaused_def JobStatusCancelled_def)

lemma validJobStatus_consts [simp]:
  "validJobStatus JobStatusPending" "validJobStatus JobStatusProcessing"
  "validJobStatus JobStatusCompleted" "validJobStatus JobStatusFailed"
  "validJobStatus JobStatusPaused" "validJobStatus JobStatusCancelled"
  by (simp_all add: validJobStatus_def)

lemma validJobStatus_nonempty: "validJobStatus s \<Longrightarrow> s \<noteq> ''''"
  by (auto simp: validJobStatus_def JobStatusPending_def JobStatusProcessing_def
      JobStatusCompleted_def JobStatusFailed_def JobStatusPaused_def JobStatusCancelled_def)

lemma updateJobStatus_row:
  assumes "\<not> failing (db w)" and "validJobStatus st" and "print_jobs (db w) jobID = Some r"
  shows "updateJobStatus w jobID st errMsg startedAt completedAt =
     w\<lparr>db := (db w)\<lparr>print_jobs := (print_jobs (db w))(jobID \<mapsto>
        r\<lparr>status := st, error_message := Some errMsg,
          started_at := startedAt, completed_at := completedAt\<rparr>)\<rparr>\<rparr>"
  using assms by (simp add: updateJobStatus_def Exec_updateJob_def)

lemma updateJobStatus_missing:
  assumes "print_jobs (db w) jobID = None"
  shows "updateJobStatus w jobID st errMsg startedAt completedAt = w"
  using assms by (simp add: updateJobStatus_def Exec_updateJob_def)

lemma updateJobStatus_failing:
  assumes "failing (db w)"
  shows "updateJobStatus w jobID st errMsg startedAt completedAt = w"
  using assms by (simp add: updateJobStatus_def Exec_updateJob_def)

lemma incrementRetryCount_row:
  assumes "\<not> failing (db w)" and "print_jobs (db w) jobID = Some r"
  shows "incrementRetryCount w jobID =
     w\<lparr>db := (db w)\<lparr>print_jobs := (print_jobs (db w))(jobID \<mapsto>
        r\<lparr>retry_count := retry_count r + 1\<rparr>)\<rparr>\<rparr>"
  using assms by (simp add: incrementRetryCount_def Exec_updateJob_def)

lemma exampleWorld_up: "\<not> failing (db exampleWorld)"
  by (simp add: exampleWorld_def exampleDB_def)

lemma exampleWorld_rows:
  "print_jobs (db exampleWorld) 1 = Some exampleRow"
  "print_jobs (db exampleWorld) 2
     = Some (exampleRow\<lparr>status := JobStatusProcessing, started_at := Some 900\<rparr>)"
  "print_jobs (db exampleWorld) 3 = Some (exampleRow\<lparr>status := JobStatusPaused\<rparr>)"
  by (simp_all add: exampleWorld_def exampleDB_def)

lemma calculateBackoff_first:
  "calculateBackoff (config exampleWorld) 0 = 10 * Second"
  by (simp add: exampleWorld_def defaultQueueConfig_def calculateBackoff_def Second_def
      Minute_def word_sless_alt)


subsection \<open>The failure handler\<close>

text \<open>
  \<^verbatim>\<open>GetJob\<close> never reads a retry limit, so the struct a worker passes to the failure
  handler allows no retry.
\<close>

lemma GetJob_MaxRetries: "GetJob w jobID = Inr job \<Longrightarrow> MaxRetries job = 0"
  by (auto simp: GetJob_def split: if_splits option.splits)

text \<open>
  C2. On a working store, for a job whose struct holds the retry count of its row: the
  failure handler increments the row's retry count only when the retry count is below
  the maximum, and then schedules one retry after the backoff delay; when the retry
  count has reached the maximum it sets the status to failed with the error message
  and a completion time, leaves the retry count alone and schedules no retry. Either
  way the job is failed afterwards or its retry count does not exceed the maximum.
\<close>

theorem handleJobFailure_retry_limit:
  assumes up: "\<not> failing (db w)"
    and row: "print_jobs (db w) (ID job) = Some r"
    and snap: "RetryCount job = retry_count r"
  shows "\<exists>r'. print_jobs (db (handleJobFailure w job errMsg)) (ID job) = Some r'
     \<and> (if RetryCount job < MaxRetries job
        then retry_count r' = retry_count r + 1
           \<and> status r' = status r
           \<and> timers (handleJobFailure w job errMsg)
               = timers w @ [(calculateBackoff (config w) (RetryCount job), ID job)]
        else retry_count r' = retry_count r
           \<and> status r' = JobStatusFailed
           \<and> error_message r' = Some errMsg
           \<and> completed_at r' = Some (clock w)
           \<and> timers (handleJobFailure w job errMsg) = timers w)
     \<and> (status r' = JobStatusFailed \<or> retry_count r' \<le> MaxRetries job)"
proof (cases "RetryCount job < MaxRetries job")
  case True
  then show ?thesis
    using up row snap
    by (simp add: handleJobFailure_def Let_def incrementRetryCount_row)
next
  case False
  then show ?thesis
    using up row snap
    by (simp add: handleJobFailure_def Let_def updateJobStatus_row sendJobEvent_def)
qed

theorem handleJobFailure_retry_limit_witness:
  "(\<exists>r'. print_jobs (db (handleJobFailure exampleWorld exampleRetryJob ''printer is offline'')) 1
          = Some r'
        \<and> retry_count r' = 1 \<and> status r' = JobStatusPending)
   \<and> timers (handleJobFailure exampleWorld exampleRetryJob ''printer is offline'')
        = [(10 * Second, 1)]"
proof -
  have row: "print_jobs (db exampleWorld) (ID exampleRetryJob) = Some exampleRow"
    by (simp add: exampleWorld_rows exampleRetryJob_def)
  have snap: "RetryCount exampleRetryJob = retry_count exampleRow"
    by (simp add: exampleRow_def exampleRetryJob_def)
  have facts: "RetryCount exampleRetryJob = 0" "MaxRetries exampleRetryJob = 3"
    "ID exampleRetryJob = 1" "retry_count exampleRow = 0"
    "status exampleRow = JobStatusPending" "timers exampleWorld = []"
    by (simp_all add: exampleRetryJob_def exampleRow_def exampleWorld_def)
  show ?thesis
    using handleJobFailure_retry_limit [OF exampleWorld_up row snap, of "''printer is offline''"]
    by (auto simp: facts calculateBackoff_first)
qed


subsection \<open>Enqueue\<close>

text \<open>
  C3, as the code has it. On a working store, for every job whose status is unset or one
  of the six job statuses, \<^verbatim>\<open>Enqueue\<close> persists the job with the copy count exactly as
  it was passed (it sets no default: zero is persisted as zero), with the status pending
  when the job's status is unset and with the job's own status otherwise, and returns the
  identifier the store assigned, which is the key of the new row.
\<close>

theorem Enqueue_persists_copies_as_given:
  assumes up: "\<not> failing (db w)"
    and st: "Status job = '''' \<or> validJobStatus (Status job)"
  shows "\<exists>job' w' r. Enqueue w job = (Inr (nextRowid (db w)), job', w')
     \<and> print_jobs (db w') (nextRowid (db w)) = Some r
     \<and> copies r = Copies job
     \<and> status r = (if Status job = '''' then JobStatusPending else Status job)"
  using up st
  by (auto simp: Enqueue_def Let_def Exec_insertJob_def offer_def
      dest: validJobStatus_nonempty)

theorem Enqueue_persists_copies_as_given_witness:
  "fst (Enqueue exampleWorld exampleJob) = Inr 4
   \<and> map_option copies (print_jobs (db (snd (snd (Enqueue exampleWorld exampleJob)))) 4)
       = Some 0
   \<and> map_option status (print_jobs (db (snd (snd (Enqueue exampleWorld exampleJob)))) 4)
       = Some JobStatusPending"
proof -
  have st: "Status exampleJob = '''' \<or> validJobStatus (Status exampleJob)"
    by (simp add: exampleJob_def)
  have next4: "nextRowid (db exampleWorld) = 4"
    by (simp add: nextRowid_def exampleWorld_def exampleDB_def)
  have facts: "Copies exampleJob = 0" "Status exampleJob = ''''"
    by (simp_all add: exampleJob_def)
  show ?thesis
    using Enqueue_persists_copies_as_given [OF exampleWorld_up st]
    by (auto simp: next4 facts)
qed

text \<open>
  C3, as the specification states it, fails twice. A job enqueued with copy count zero
  and no status is persisted, as job 4, with copy count zero, not one. The same job
  enqueued with the status paused is persisted as paused, not as pending, and again with
  copy count zero.
\<close>

theorem Enqueue_zero_copies_counterexample:
  "fst (Enqueue exampleWorld exampleJob) = Inr 4
   \<and> Copies exampleJob = 0
   \<and> print_jobs (db (snd (snd (Enqueue exampleWorld exampleJob)))) 4
       = Some \<lparr>printer_id = 7, template_id = 3, variables_json = ''{}'', tspl_content = '''',
               status = JobStatusPending, priority = 5, retry_count = 0,
               error_message = None, copies = 0, submitted_by = ''api'', created_at = 1000,
               started_at = None, completed_at = None\<rparr>
   \<and> fst (Enqueue exampleWorld (exampleJob\<lparr>Status := JobStatusPaused\<rparr>)) = Inr 4
   \<and> print_jobs
         (db (snd (snd (Enqueue exampleWorld (exampleJob\<lparr>Status := JobStatusPaused\<rparr>))))) 4
       = Some \<lparr>printer_id = 7, template_id = 3, variables_json = ''{}'', tspl_content = '''',
               status = JobStatusPaused, priority = 5, retry_count = 0,
               error_message = None, copies = 0, submitted_by = ''api'', created_at = 1000,
               started_at = None, completed_at = None\<rparr>"
  using validJobStatus_nonempty [of JobStatusPaused]
  by (simp add: Enqueue_def Exec_insertJob_def nextRowid_def offer_def Let_def
      exampleJob_def exampleWorld_def exampleDB_def)


subsection \<open>Cancelling, resuming and retrying a job\<close>

lemma CancelJob_failing:
  "failing (db w) \<Longrightarrow> CancelJob w jobID = (Some FailedToCancelJob, w)"
  by (simp add: CancelJob_def Exec_updateJob_def)

lemma CancelJob_missing:
  "\<not> failing (db w) \<Longrightarrow> print_jobs (db w) jobID = None
     \<Longrightarrow> CancelJob w jobID = (Some JobCannotBeCancelled, w)"
  by (simp add: CancelJob_def Exec_updateJob_def)

text \<open>
  C6. On a working store, for a job that the store holds: \<^verbatim>\<open>CancelJob\<close> succeeds
  exactly when the job's status is pending or paused. When it succeeds the job's row is
  the old row with the status cancelled and the completion time set, and no other row
  has changed; when it does not, it returns an error and the whole state, the job's row
  included, is what it was.
\<close>

theorem CancelJob_pending_or_paused:
  assumes up: "\<not> failing (db w)"
    and row: "print_jobs (db w) jobID = Some r"
  shows "(fst (CancelJob w jobID) = None
            \<longleftrightarrow> status r = JobStatusPending \<or> status r = JobStatusPaused)
     \<and> (fst (CancelJob w jobID) = None \<longrightarrow>
          print_jobs (db (snd (CancelJob w jobID))) jobID
            = Some (r\<lparr>status := JobStatusCancelled, completed_at := Some (clock w)\<rparr>)
          \<and> (\<forall>k. k \<noteq> jobID \<longrightarrow>
                print_jobs (db (snd (CancelJob w jobID))) k = print_jobs (db w) k))
     \<and> (fst (CancelJob w jobID) \<noteq> None \<longrightarrow> snd (CancelJob w jobID) = w)"
  using up row by (simp add: CancelJob_def Exec_updateJob_def)

theorem CancelJob_pending_or_paused_witness:
  "fst (CancelJob exampleWorld 3) = None
   \<and> print_jobs (db (snd (CancelJob exampleWorld 3))) 3
       = Some (exampleRow\<lparr>status := JobStatusCancelled, completed_at := Some 1000\<rparr>)
   \<and> fst (CancelJob exampleWorld 2) \<noteq> None
   \<and> snd (CancelJob exampleWorld 2) = exampleWorld"
proof -
  have clk: "clock exampleWorld = 1000"
    by (simp add: exampleWorld_def)
  have st: "status exampleRow = JobStatusPending"
    by (simp add: exampleRow_def)
  show ?thesis
    using CancelJob_pending_or_paused [OF exampleWorld_up exampleWorld_rows(3)]
      CancelJob_pending_or_paused [OF exampleWorld_up exampleWorld_rows(2)]
    by (simp add: clk st)
qed


lemma GetJob_Inr:
  assumes "GetJob w jobID = Inr job"
  shows "\<not> failing (db w) \<and> (\<exists>r. print_jobs (db w) jobID = Some r
           \<and> Status job = status r \<and> PrinterID job = printer_id r
           \<and> error_message r \<noteq> None)"
  using assms by (auto simp: GetJob_def split: if_splits option.splits)

text \<open>
  C9. For a job that the store holds: \<^verbatim>\<open>ResumeJob\<close> succeeds only when the job's
  status is paused and its printer is not paused; when the job is not paused, or its
  printer is paused, it returns an error and the state is what it was; when it
  succeeds the job's row is pending, with the error message, the start time and the
  completion time cleared. It does succeed for a paused job of a printer that is not
  paused when the store works and the row's error message is not \<^verbatim>\<open>NULL\<close>.
\<close>

theorem ResumeJob_paused_only:
  assumes row: "print_jobs (db w) jobID = Some r"
  shows "(fst (ResumeJob w jobID) = None \<longrightarrow>
            status r = JobStatusPaused \<and> \<not> printerPaused w (printer_id r)
            \<and> print_jobs (db (snd (ResumeJob w jobID))) jobID
                = Some (r\<lparr>status := JobStatusPending, error_message := Some '''',
                          started_at := None, completed_at := None\<rparr>))
     \<and> (status r \<noteq> JobStatusPaused \<or> printerPaused w (printer_id r) \<longrightarrow>
            fst (ResumeJob w jobID) \<noteq> None \<and> snd (ResumeJob w jobID) = w)
     \<and> (status r = JobStatusPaused \<and> \<not> printerPaused w (printer_id r)
          \<and> \<not> failing (db w) \<and> error_message r \<noteq> None \<longrightarrow>
            fst (ResumeJob w jobID) = None)"
proof -
  have ok: "db (offer (updateJobStatus w jobID JobStatusPending '''' None None) jobID)
      = db (updateJobStatus w jobID JobStatusPending '''' None None)"
    by (simp add: offer_def)
  show ?thesis
  proof (cases "GetJob w jobID")
    case (Inl err)
    then show ?thesis
      using row by (auto simp: ResumeJob_def GetJob_def split: if_splits option.splits)
  next
    case (Inr job)
    from GetJob_Inr [OF Inr] row
    have up: "\<not> failing (db w)" and j: "Status job = status r" "PrinterID job = printer_id r"
      by auto
    show ?thesis
      using Inr up j row
      by (simp add: ResumeJob_def offer_def updateJobStatus_row)
  qed
qed

theorem ResumeJob_paused_only_witness:
  "fst (ResumeJob exampleWorld 3) = None
   \<and> print_jobs (db (snd (ResumeJob exampleWorld 3))) 3 = Some exampleRow
   \<and> fst (ResumeJob exampleWorld 1) \<noteq> None
   \<and> snd (ResumeJob exampleWorld 1) = exampleWorld"
proof -
  note job3 = ResumeJob_paused_only [OF exampleWorld_rows(3)]
  note job1 = ResumeJob_paused_only [OF exampleWorld_rows(1)]
  have notPaused: "\<not> printerPaused exampleWorld 7"
    by (simp add: printerPaused_def exampleWorld_def)
  have pre3: "status (exampleRow\<lparr>status := JobStatusPaused\<rparr>) = JobStatusPaused
      \<and> \<not> printerPaused exampleWorld (printer_id (exampleRow\<lparr>status := JobStatusPaused\<rparr>))
      \<and> \<not> failing (db exampleWorld)
      \<and> error_message (exampleRow\<lparr>status := JobStatusPaused\<rparr>) \<noteq> None"
    using notPaused exampleWorld_up by (simp add: exampleRow_def)
  have ok3: "fst (ResumeJob exampleWorld 3) = None"
    using job3 [THEN conjunct2, THEN conjunct2, THEN mp, OF pre3] .
  have same: "exampleRow\<lparr>status := JobStatusPaused\<rparr>
      \<lparr>status := JobStatusPending, error_message := Some '''',
       started_at := None, completed_at := None\<rparr> = exampleRow"
    by (simp add: exampleRow_def)
  have row3: "print_jobs (db (snd (ResumeJob exampleWorld 3))) 3 = Some exampleRow"
    using job3 [THEN conjunct1, THEN mp, OF ok3, THEN conjunct2, THEN conjunct2]
    unfolding same .
  have pre1: "status exampleRow \<noteq> JobStatusPaused \<or> printerPaused exampleWorld (printer_id exampleRow)"
    by (simp add: exampleRow_def)
  note no1 = job1 [THEN conjunct2, THEN conjunct1, THEN mp, OF pre1]
  show ?thesis
    using ok3 row3 no1 by blast
qed

text \<open>Pausing a printer is what puts it in the paused-printer set.\<close>

lemma PausePrinter_printerPaused: "printerPaused (snd (PausePrinter w printerID)) printerID"
  by (simp add: PausePrinter_def Exec_updateJobs_def Let_def printerPaused_def)


subsection \<open>The retry timer\<close>

lemma retryJob_row:
  assumes "\<not> failing (db w)" and "print_jobs (db w) jobID = Some r"
  shows "print_jobs (db (retryJob w jobID)) jobID
     = Some (r\<lparr>status := JobStatusPending, error_message := Some '''',
               started_at := None, completed_at := None\<rparr>)"
  using assms by (simp add: retryJob_def offer_def updateJobStatus_row)

text \<open>
  C10. When a timer that the failure handler started for a job expires, on a working
  store, the job's row becomes pending, with the error message (set to the empty
  string), the start time and the completion time cleared, whatever the row's status
  is at that moment: the callback does not look at it. So a job that was paused and
  then cancelled while the timer ran is pending again.
\<close>

theorem retry_timer_ignores_status:
  assumes up: "\<not> failing (db w)"
    and row: "print_jobs (db w) jobID = Some r"
    and pending: "i < length (timers w)"
    and job: "snd (timers w ! i) = jobID"
  shows "print_jobs (db (timerFires w i)) jobID
     = Some (r\<lparr>status := JobStatusPending, error_message := Some '''',
               started_at := None, completed_at := None\<rparr>)"
  using assms by (simp add: timerFires_def retryJob_row)

text \<open>
  The scenario: job 1 fails with a retry left, so a timer is started; the job is paused
  and then cancelled; the timer expires.
\<close>

lemma cancelled_during_backoff:
  "timers (snd (CancelJob (snd (PauseJob
      (handleJobFailure exampleWorld exampleRetryJob ''printer is offline'') 1)) 1))
     = [(10 * Second, 1)]"
  "\<not> failing (db (snd (CancelJob (snd (PauseJob
      (handleJobFailure exampleWorld exampleRetryJob ''printer is offline'') 1)) 1)))"
  "print_jobs (db (snd (CancelJob (snd (PauseJob
      (handleJobFailure exampleWorld exampleRetryJob ''printer is offline'') 1)) 1))) 1
     = Some (exampleRow\<lparr>retry_count := 1, status := JobStatusCancelled,
               completed_at := Some 1000\<rparr>)"
  by (simp_all add: handleJobFailure_def incrementRetryCount_def PauseJob_def CancelJob_def
      Exec_updateJob_def Let_def calculateBackoff_first [simplified]
      exampleRetryJob_def exampleWorld_def exampleDB_def exampleRow_def
      calculateBackoff_def defaultQueueConfig_def Second_def Minute_def word_sless_alt)

theorem retry_timer_ignores_status_witness:
  "print_jobs (db (timerFires (snd (CancelJob (snd (PauseJob
      (handleJobFailure exampleWorld exampleRetryJob ''printer is offline'') 1)) 1)) 0)) 1
     = Some (exampleRow\<lparr>retry_count := 1\<rparr>)"
proof -
  let ?w = "snd (CancelJob (snd (PauseJob
      (handleJobFailure exampleWorld exampleRetryJob ''printer is offline'') 1)) 1)"
  have pending: "0 < length (timers ?w)" and job: "snd (timers ?w ! 0) = 1"
    by (simp_all add: cancelled_during_backoff(1))
  have same: "exampleRow\<lparr>retry_count := 1, status := JobStatusCancelled,
      completed_at := Some 1000\<rparr>
      \<lparr>status := JobStatusPending, error_message := Some '''',
       started_at := None, completed_at := None\<rparr> = exampleRow\<lparr>retry_count := 1\<rparr>"
    by (simp add: exampleRow_def)
  show ?thesis
    using retry_timer_ignores_status
      [OF cancelled_during_backoff(2) cancelled_during_backoff(3) pending job]
    unfolding same .
qed


subsection \<open>Start-up recovery\<close>

lemma db_foldl_offer [simp]: "db (foldl offer w ids) = db w"
  by (induction ids arbitrary: w) (simp_all add: offer_def)

lemma goroutines_foldl_offer [simp]: "goroutines (foldl offer w ids) = goroutines w"
  by (induction ids arbitrary: w) (simp_all add: offer_def)

lemma recoverJobs_ok:
  assumes "recoverJobs w = (None, w2)"
  shows "goroutines w2 = goroutines w
     \<and> print_jobs (db w2)
         = (\<lambda>k. map_option
              (\<lambda>r. if status r = JobStatusProcessing then r\<lparr>status := JobStatusPending\<rparr>
                    else r)
              (print_jobs (db w) k))
     \<and> (\<exists>ids. Query_pendingIDs (db w2) = Some ids
              \<and> w2 = foldl offer (w\<lparr>db := db w2\<rparr>) ids)"
  using assms
  by (auto simp: recoverJobs_def Exec_updateJobs_def Let_def
      split: if_splits option.splits)

text \<open>
  C8. Whenever \<^verbatim>\<open>Start\<close> starts a goroutine, it has first run the recovery to its end:
  the workers and the dispatcher are started from the state \<open>w2\<close> that
  \<^verbatim>\<open>recoverJobs\<close> returned without an error, in which every job that was processing is
  pending, every other job is as it was, no job is processing, and no goroutine
  had been started yet; the identifiers the recovery offered to the channel were
  selected from the table after the reset.
\<close>

theorem Start_recovers_before_workers:
  assumes start: "Start w = (res, w')"
    and started: "goroutines w' \<noteq> goroutines w"
  shows "\<exists>w2. recoverJobs (w\<lparr>running := True\<rparr>) = (None, w2)
     \<and> goroutines w2 = goroutines w
     \<and> (\<forall>k r. print_jobs (db w) k = Some r \<longrightarrow>
           print_jobs (db w2) k
             = Some (if status r = JobStatusProcessing then r\<lparr>status := JobStatusPending\<rparr>
                     else r))
     \<and> (\<forall>k r. print_jobs (db w2) k = Some r \<longrightarrow> status r \<noteq> JobStatusProcessing)
     \<and> (\<exists>ids. Query_pendingIDs (db w2) = Some ids
            \<and> w2 = foldl offer (w\<lparr>running := True, db := db w2\<rparr>) ids)
     \<and> res = None
     \<and> w' = w2\<lparr>goroutines := goroutines w
                  @ map (\<lambda>i. Worker (int i)) [0..<nat (workers w2)] @ [Dispatcher]\<rparr>"
proof -
  from start started have notRunning: "\<not> running w"
    by (auto simp: Start_def)
  obtain e w2 where rec: "recoverJobs (w\<lparr>running := True\<rparr>) = (e, w2)"
    by (cases "recoverJobs (w\<lparr>running := True\<rparr>)")
  have same: "e \<noteq> None \<Longrightarrow> goroutines w2 = goroutines w"
    using rec
    by (auto simp: recoverJobs_def Exec_updateJobs_def Let_def
        split: if_splits option.splits)
  have e: "e = None"
  proof (rule ccontr)
    assume "e \<noteq> None"
    then obtain err where "e = Some err" by auto
    with start rec notRunning same started show False
      by (auto simp: Start_def)
  qed
  note ok = recoverJobs_ok [OF rec [unfolded e]]
  have gor: "goroutines w2 = goroutines w"
    using ok [THEN conjunct1] by simp
  note tbl = ok [THEN conjunct2, THEN conjunct1]
  have offered: "\<exists>ids. Query_pendingIDs (db w2) = Some ids
      \<and> w2 = foldl offer (w\<lparr>running := True, db := db w2\<rparr>) ids"
    using ok [THEN conjunct2, THEN conjunct2] by simp
  have rows: "\<forall>k r. print_jobs (db w) k = Some r \<longrightarrow>
      print_jobs (db w2) k
        = Some (if status r = JobStatusProcessing then r\<lparr>status := JobStatusPending\<rparr>
                else r)"
    using tbl by simp
  have none: "\<forall>k r. print_jobs (db w2) k = Some r \<longrightarrow> status r \<noteq> JobStatusProcessing"
  proof (intro allI impI)
    fix k r
    assume r: "print_jobs (db w2) k = Some r"
    from tbl have "print_jobs (db w2) k
        = map_option
            (\<lambda>r. if status r = JobStatusProcessing then r\<lparr>status := JobStatusPending\<rparr>
                  else r)
            (print_jobs (db w) k)"
      by simp
    with r obtain z where "print_jobs (db w) k = Some z"
      and "r = (if status z = JobStatusProcessing then z\<lparr>status := JobStatusPending\<rparr>
                else z)"
      by auto
    then show "status r \<noteq> JobStatusProcessing"
      by (cases "status z = JobStatusProcessing") simp_all
  qed
  have res: "res = None"
    and w': "w' = w2\<lparr>goroutines := goroutines w
      @ map (\<lambda>i. Worker (int i)) [0..<nat (workers w2)] @ [Dispatcher]\<rparr>"
    using start notRunning gor by (simp_all add: Start_def rec e)
  from rec e have rec': "recoverJobs (w\<lparr>running := True\<rparr>) = (None, w2)"
    by simp
  show ?thesis
    by (intro exI [of _ w2] conjI rec' gor rows none offered res w')
qed

lemma Start_example:
  "goroutines (snd (Start exampleWorld)) = [Worker 0, Worker 1, Dispatcher]"
  "jobCh (snd (Start exampleWorld)) = [1, 2]"
  "print_jobs (db (snd (Start exampleWorld))) 2 = Some (exampleRow\<lparr>started_at := Some 900\<rparr>)"
  by (simp_all add: Start_def recoverJobs_def Exec_updateJobs_def Query_pendingIDs_def
      offer_def Let_def exampleWorld_def exampleDB_def exampleRow_def upt_rec)

theorem Start_recovers_before_workers_witness:
  "fst (Start exampleWorld) = None
   \<and> goroutines (snd (Start exampleWorld)) = [Worker 0, Worker 1, Dispatcher]
   \<and> jobCh (snd (Start exampleWorld)) = [1, 2]
   \<and> print_jobs (db (snd (Start exampleWorld))) 2
       = Some (exampleRow\<lparr>started_at := Some 900\<rparr>)"
proof -
  have start: "Start exampleWorld = (fst (Start exampleWorld), snd (Start exampleWorld))"
    by simp
  have started: "goroutines (snd (Start exampleWorld)) \<noteq> goroutines exampleWorld"
    by (simp add: Start_example(1)) (simp add: exampleWorld_def)
  from Start_recovers_before_workers [OF start started]
  have "fst (Start exampleWorld) = None"
    by blast
  then show ?thesis
    by (simp add: Start_example)
qed


subsection \<open>The status poll\<close>

text \<open>
  \<^verbatim>\<open>CheckStatus\<close> never returns a nil status without an error, so the branch of
  \<^const>\<open>Print\<close> for that result is never taken; and \<^const>\<open>readStatus\<close> decodes only
  responses of four bytes.
\<close>

lemma parseStatus_None: "parseStatus response = None \<longleftrightarrow> length response < 4"
  by (cases response rule: parseStatus.cases) simp_all

lemma readStatus_result:
  "readStatus w printerID = ((st, err), w') \<Longrightarrow> st \<noteq> None"
  by (auto simp: readStatus_def markOffline_def decodeResponse_def statusResponseLength_def
      parseStatus_None
      split: sum.splits if_splits option.splits)

lemma CheckStatus_result:
  "CheckStatus w printerID = ((st, err), w') \<Longrightarrow> st \<noteq> None \<or> err \<noteq> None"
  by (auto simp: CheckStatus_def markOffline_def
      split: option.splits prod.splits sum.splits
      dest: readStatus_result)


subsection \<open>A successful print\<close>

text \<open>
  What \<^verbatim>\<open>updatePrinterStatus\<close> can change: the registry, the table of printers and the
  list of status notifications, and in the first two neither the set of printers nor a
  print counter.
\<close>

lemma updatePrinterStatus_shape:
  "\<exists>P T S. updatePrinterStatus w printerID st
       = w\<lparr>db := (db w)\<lparr>printers_tbl := T\<rparr>, printers := P, statusChanges := S\<rparr>
     \<and> (\<forall>k. map_option P_TotalPrints (P k) = map_option P_TotalPrints (printers w k))
     \<and> (\<forall>k. map_option total_prints (T k) = map_option total_prints (printers_tbl (db w) k))"
proof (cases "printers w printerID")
  case None
  then have "updatePrinterStatus w printerID st
      = w\<lparr>db := (db w)\<lparr>printers_tbl := printers_tbl (db w)\<rparr>, printers := printers w,
          statusChanges := statusChanges w\<rparr>"
    by (simp add: updatePrinterStatus_def)
  then show ?thesis by blast
next
  case (Some p)
  define P where "P = (printers w)(printerID \<mapsto> p\<lparr>P_Status := st,
    P_LastSeenAt := Some (clock w)\<rparr>)"
  define T where "T = printers_tbl (Exec_UpdatePrinterStatus (db w) st printerID (clock w))"
  define S where "S = (if P_Status p \<noteq> st \<and> pmWebhookSenderSet w
    then statusChanges w @ [(printerID, P_Name p, P_Status p, st)] else statusChanges w)"
  have d: "Exec_UpdatePrinterStatus (db w) st printerID (clock w)
      = (db w)\<lparr>printers_tbl := T\<rparr>"
    by (simp add: T_def Exec_UpdatePrinterStatus_def split: option.splits)
  have eq: "updatePrinterStatus w printerID st
      = w\<lparr>db := (db w)\<lparr>printers_tbl := T\<rparr>, printers := P, statusChanges := S\<rparr>"
    using Some by (simp add: updatePrinterStatus_def Let_def d P_def S_def)
  have p: "\<forall>k. map_option P_TotalPrints (P k) = map_option P_TotalPrints (printers w k)"
    using Some by (simp add: P_def)
  have t: "\<forall>k. map_option total_prints (T k) = map_option total_prints (printers_tbl (db w) k)"
    by (simp add: T_def Exec_UpdatePrinterStatus_def split: option.splits)
  from eq p t show ?thesis by blast
qed

text \<open>
  A device is ready for a printer when it accepts a dial and a write and answers the
  status poll with four bytes, the first of which is \<^verbatim>\<open>'@'\<close>, \<^verbatim>\<open>'S'\<close> or \<^verbatim>\<open>'I'\<close>
  (normal, standby, idle). On a ready device, with no stale connection cached,
  \<^verbatim>\<open>CheckStatus\<close> returns an online status that can print.
\<close>

lemma decodeResponse_ready:
  assumes "b0 = 0x40 \<or> b0 = 0x53 \<or> b0 = 0x49"
  shows "\<exists>st. decodeResponse now [b0, b1, b2, b3] = Some st \<and> IsOnline st \<and> CanPrint st"
  using assms
  by (auto simp: decodeResponse_def lookupOrUnknown_def printerStateMap_def)

lemma CheckStatus_ready:
  assumes reg: "printers w printerID = Some p"
    and conn: "connections w printerID \<noteq> Some Stale"
    and dial: "dialError (devices w printerID) = None"
    and wr: "writeError (devices w printerID) = None"
    and rd: "readLoop (reads (devices w printerID)) [] = Inr [b0, b1, b2, b3]"
    and ready: "b0 = 0x40 \<or> b0 = 0x53 \<or> b0 = 0x49"
  shows "\<exists>st P T S. CheckStatus w printerID
       = ((Some st, None),
          w\<lparr>db := (db w)\<lparr>printers_tbl := T\<rparr>, printers := P, statusChanges := S,
            connections := (connections w)(printerID \<mapsto> Live),
            transmitted := transmitted w @ [(printerID, statusCommand)]\<rparr>)
     \<and> IsOnline st \<and> CanPrint st
     \<and> (\<forall>k. map_option P_TotalPrints (P k) = map_option P_TotalPrints (printers w k))
     \<and> (\<forall>k. map_option total_prints (T k) = map_option total_prints (printers_tbl (db w) k))"
proof -
  define w2 where "w2 = w\<lparr>connections := (connections w)(printerID \<mapsto> Live),
    transmitted := transmitted w @ [(printerID, statusCommand)]\<rparr>"
  have c: "connections w printerID = None \<or> connections w printerID = Some Live"
    using conn by (cases "connections w printerID") (auto intro: Conn.exhaust)
  have same: "connections w printerID = Some Live
      \<Longrightarrow> (connections w)(printerID \<mapsto> Live) = connections w"
    by (rule ext) simp
  have polled: "CheckStatus w printerID = readStatus w2 printerID"
    using c reg dial wr
    by (auto simp: CheckStatus_def connect_def connWrite_def w2_def same)
  from decodeResponse_ready [OF ready]
  obtain st where st: "decodeResponse (clock w2) [b0, b1, b2, b3] = Some st"
    "IsOnline st" "CanPrint st"
    by blast
  have rd2: "readLoop (reads (devices w2 printerID)) [] = Inr [b0, b1, b2, b3]"
    using rd by (simp add: w2_def)
  have read: "readStatus w2 printerID
      = ((Some st, None), updatePrinterStatus w2 printerID (determineStatusString st))"
    using st(1) rd2 by (simp add: readStatus_def statusResponseLength_def)
  from updatePrinterStatus_shape [of w2 printerID "determineStatusString st"]
  obtain P T S where upd: "updatePrinterStatus w2 printerID (determineStatusString st)
       = w2\<lparr>db := (db w2)\<lparr>printers_tbl := T\<rparr>, printers := P, statusChanges := S\<rparr>"
    and p: "\<forall>k. map_option P_TotalPrints (P k) = map_option P_TotalPrints (printers w2 k)"
    and t: "\<forall>k. map_option total_prints (T k) = map_option total_prints (printers_tbl (db w2) k)"
    by blast
  have "CheckStatus w printerID
       = ((Some st, None),
          w\<lparr>db := (db w)\<lparr>printers_tbl := T\<rparr>, printers := P, statusChanges := S,
            connections := (connections w)(printerID \<mapsto> Live),
            transmitted := transmitted w @ [(printerID, statusCommand)]\<rparr>)"
    by (simp add: polled read upd) (simp add: w2_def)
  moreover have "\<forall>k. map_option P_TotalPrints (P k) = map_option P_TotalPrints (printers w k)"
    using p by (simp add: w2_def)
  moreover have "\<forall>k. map_option total_prints (T k)
      = map_option total_prints (printers_tbl (db w) k)"
    using t by (simp add: w2_def)
  ultimately show ?thesis
    using st(2,3) by blast
qed

lemma SendCommand_live:
  assumes "printers w printerID = Some p"
    and "connections w printerID = Some Live"
    and "writeError (devices w printerID) = None"
  shows "SendCommand w printerID payload
     = (None, w\<lparr>transmitted := transmitted w @ [(printerID, payload)]\<rparr>)"
  using assms by (simp add: SendCommand_def connect_def connWrite_def)

text \<open>
  On a ready device \<^verbatim>\<open>Print\<close> succeeds: the call is recorded once, the copies are sent
  in one write after the status poll, and the number of copies is added once to the
  registered printer's counter and once to the persisted counter.
\<close>

lemma Print_ready:
  assumes up: "\<not> failing (db w)"
    and reg: "printers w printerID = Some p"
    and tbl: "printers_tbl (db w) printerID = Some pr"
    and conn: "connections w printerID \<noteq> Some Stale"
    and dial: "dialError (devices w printerID) = None"
    and wr: "writeError (devices w printerID) = None"
    and rd: "readLoop (reads (devices w printerID)) [] = Inr [b0, b1, b2, b3]"
    and ready: "b0 = 0x40 \<or> b0 = 0x53 \<or> b0 = 0x49"
  shows "\<exists>P T S. Print w printerID tspl n
       = (None,
          w\<lparr>db := (db w)\<lparr>printers_tbl := T\<rparr>, printers := P, statusChanges := S,
            connections := (connections w)(printerID \<mapsto> Live),
            transmitted := transmitted w @ [(printerID, statusCommand),
              (printerID, appendCopies (nat (n - 1)) tspl tspl)],
            printCalls := printCalls w @ [(printerID, tspl, n)]\<rparr>)
     \<and> map_option P_TotalPrints (P printerID) = Some (P_TotalPrints p + word_of_int n)
     \<and> map_option total_prints (T printerID) = Some (sqliteAdd (total_prints pr) n)"
proof -
  define w0 where "w0 = w\<lparr>printCalls := printCalls w @ [(printerID, tspl, n)]\<rparr>"
  have pre: "printers w0 printerID = Some p" "connections w0 printerID \<noteq> Some Stale"
    "dialError (devices w0 printerID) = None" "writeError (devices w0 printerID) = None"
    "readLoop (reads (devices w0 printerID)) [] = Inr [b0, b1, b2, b3]"
    using reg conn dial wr rd by (simp_all add: w0_def)
  from CheckStatus_ready [OF pre ready]
  obtain st P1 T1 S where chk: "CheckStatus w0 printerID
       = ((Some st, None),
          w0\<lparr>db := (db w0)\<lparr>printers_tbl := T1\<rparr>, printers := P1, statusChanges := S,
            connections := (connections w0)(printerID \<mapsto> Live),
            transmitted := transmitted w0 @ [(printerID, statusCommand)]\<rparr>)"
    and st: "IsOnline st" "CanPrint st"
    and p1: "\<forall>k. map_option P_TotalPrints (P1 k) = map_option P_TotalPrints (printers w0 k)"
    and t1: "\<forall>k. map_option total_prints (T1 k) = map_option total_prints (printers_tbl (db w0) k)"
    by blast
  define w1 where "w1 = w0\<lparr>db := (db w0)\<lparr>printers_tbl := T1\<rparr>, printers := P1,
    statusChanges := S, connections := (connections w0)(printerID \<mapsto> Live),
    transmitted := transmitted w0 @ [(printerID, statusCommand)]\<rparr>"
  from p1 pre(1) have "map_option P_TotalPrints (P1 printerID) = Some (P_TotalPrints p)"
    by simp
  then obtain p' where p': "P1 printerID = Some p'" "P_TotalPrints p' = P_TotalPrints p"
    by auto
  from t1 tbl have "map_option total_prints (T1 printerID) = Some (total_prints pr)"
    by (simp add: w0_def)
  then obtain pr' where pr': "T1 printerID = Some pr'" "total_prints pr' = total_prints pr"
    by auto
  have send: "SendCommand w1 printerID (appendCopies (nat (n - 1)) tspl tspl)
      = (None, w1\<lparr>transmitted := transmitted w1
           @ [(printerID, appendCopies (nat (n - 1)) tspl tspl)]\<rparr>)"
    using p'(1) wr by (intro SendCommand_live [where p = p']) (simp_all add: w1_def w0_def)
  define P where
    "P = P1(printerID \<mapsto> p'\<lparr>P_TotalPrints := P_TotalPrints p' + word_of_int n\<rparr>)"
  define T where
    "T = T1(printerID \<mapsto> pr'\<lparr>total_prints := sqliteAdd (total_prints pr') n\<rparr>)"
  have inc: "Exec_IncrementPrinterPrints ((db w)\<lparr>printers_tbl := T1\<rparr>) n printerID
      = (db w)\<lparr>printers_tbl := T\<rparr>"
    using up pr'(1) by (simp add: Exec_IncrementPrinterPrints_def T_def)
  have "Print w printerID tspl n
       = (None,
          w\<lparr>db := (db w)\<lparr>printers_tbl := T\<rparr>, printers := P, statusChanges := S,
            connections := (connections w)(printerID \<mapsto> Live),
            transmitted := transmitted w @ [(printerID, statusCommand),
              (printerID, appendCopies (nat (n - 1)) tspl tspl)],
            printCalls := printCalls w @ [(printerID, tspl, n)]\<rparr>)"
    unfolding Print_def Let_def w0_def [symmetric]
    using st
    by (simp add: chk w1_def [symmetric] send)
       (simp add: w1_def w0_def p'(1) inc P_def)
  moreover have "map_option P_TotalPrints (P printerID)
      = Some (P_TotalPrints p + word_of_int n)"
    by (simp add: P_def p'(2))
  moreover have "map_option total_prints (T printerID) = Some (sqliteAdd (total_prints pr) n)"
    by (simp add: T_def pr'(2))
  ultimately show ?thesis by blast
qed

lemma sendJobEvent_shape:
  "\<exists>E. sendJobEvent w event jobID printerID st errMsg = w\<lparr>jobEvents := E\<rparr>"
proof (cases "webhookSenderSet w")
  case True
  then have "sendJobEvent w event jobID printerID st errMsg
      = w\<lparr>jobEvents := jobEvents w @ [(event, jobID, printerID, st, errMsg)]\<rparr>"
    by (simp add: sendJobEvent_def)
  then show ?thesis by blast
next
  case False
  then have "sendJobEvent w event jobID printerID st errMsg = w\<lparr>jobEvents := jobEvents w\<rparr>"
    by (simp add: sendJobEvent_def)
  then show ?thesis by blast
qed

text \<open>
  The second half of \<^verbatim>\<open>processJob\<close> on a ready device, whatever
  \<open>incrementPrintCount\<close> is: it is called on a state \<open>w5\<close> in which \<^verbatim>\<open>Print\<close> has been
  called once, the job is completed, and the copies have been added once to each
  counter.
\<close>

lemma processJob_print_success:
  assumes up: "\<not> failing (db w)"
    and row: "print_jobs (db w) (ID job) = Some r"
    and pm: "printerManagerSet w"
    and reg: "printers w (PrinterID job) = Some p"
    and tbl: "printers_tbl (db w) (PrinterID job) = Some pr"
    and conn: "connections w (PrinterID job) \<noteq> Some Stale"
    and dial: "dialError (devices w (PrinterID job)) = None"
    and wr: "writeError (devices w (PrinterID job)) = None"
    and rd: "readLoop (reads (devices w (PrinterID job))) [] = Inr [b0, b1, b2, b3]"
    and ready: "b0 = 0x40 \<or> b0 = 0x53 \<or> b0 = 0x49"
  shows "\<exists>w5. processJob_print incrementPrintCount w job
       = incrementPrintCounter (incrementPrintCount w5 (PrinterID job) (Copies job))
           (PrinterID job) (Copies job)
     \<and> printCalls w5 = printCalls w @ [(PrinterID job, TSPLContent job, Copies job)]
     \<and> map_option status (print_jobs (db w5) (ID job)) = Some JobStatusCompleted
     \<and> map_option completed_at (print_jobs (db w5) (ID job)) = Some (Some (clock w))
     \<and> map_option P_TotalPrints (printers w5 (PrinterID job))
         = Some (P_TotalPrints p + word_of_int (Copies job))
     \<and> map_option total_prints (printers_tbl (db w5) (PrinterID job))
         = Some (sqliteAdd (total_prints pr) (Copies job))"
proof -
  define r1 where "r1 = r\<lparr>status := JobStatusProcessing, error_message := Some '''',
    started_at := Some (clock w), completed_at := None\<rparr>"
  define w1 where "w1 = updateJobStatus w (ID job) JobStatusProcessing '''' (Some (clock w)) None"
  have w1: "w1 = w\<lparr>db := (db w)\<lparr>print_jobs := (print_jobs (db w))(ID job \<mapsto> r1)\<rparr>\<rparr>"
    using up row by (simp add: w1_def r1_def updateJobStatus_row)
  obtain E1 where w2: "sendJobEvent w1 ''job_started'' (ID job) (PrinterID job)
      JobStatusProcessing '''' = w1\<lparr>jobEvents := E1\<rparr>"
    using sendJobEvent_shape by blast
  define w2 where "w2 = w1\<lparr>jobEvents := E1\<rparr>"
  have pre: "\<not> failing (db w2)" "printers w2 (PrinterID job) = Some p"
    "printers_tbl (db w2) (PrinterID job) = Some pr"
    "connections w2 (PrinterID job) \<noteq> Some Stale"
    "dialError (devices w2 (PrinterID job)) = None"
    "writeError (devices w2 (PrinterID job)) = None"
    "readLoop (reads (devices w2 (PrinterID job))) [] = Inr [b0, b1, b2, b3]"
    using up reg tbl conn dial wr rd by (simp_all add: w2_def w1)
  from Print_ready [OF pre ready, of "TSPLContent job" "Copies job"]
  obtain P T S where prt: "Print w2 (PrinterID job) (TSPLContent job) (Copies job)
       = (None,
          w2\<lparr>db := (db w2)\<lparr>printers_tbl := T\<rparr>, printers := P, statusChanges := S,
            connections := (connections w2)(PrinterID job \<mapsto> Live),
            transmitted := transmitted w2 @ [(PrinterID job, statusCommand),
              (PrinterID job, appendCopies (nat (Copies job - 1)) (TSPLContent job)
                 (TSPLContent job))],
            printCalls := printCalls w2 @ [(PrinterID job, TSPLContent job, Copies job)]\<rparr>)"
    and p: "map_option P_TotalPrints (P (PrinterID job))
        = Some (P_TotalPrints p + word_of_int (Copies job))"
    and t: "map_option total_prints (T (PrinterID job))
        = Some (sqliteAdd (total_prints pr) (Copies job))"
    by blast
  define w3 where "w3 = w2\<lparr>db := (db w2)\<lparr>printers_tbl := T\<rparr>, printers := P,
    statusChanges := S, connections := (connections w2)(PrinterID job \<mapsto> Live),
    transmitted := transmitted w2 @ [(PrinterID job, statusCommand),
      (PrinterID job, appendCopies (nat (Copies job - 1)) (TSPLContent job)
         (TSPLContent job))],
    printCalls := printCalls w2 @ [(PrinterID job, TSPLContent job, Copies job)]\<rparr>"
  have w3: "\<not> failing (db w3)" "print_jobs (db w3) (ID job) = Some r1"
    "clock w3 = clock w" "printers_tbl (db w3) = T" "printers w3 = P"
    "printCalls w3 = printCalls w @ [(PrinterID job, TSPLContent job, Copies job)]"
    using up by (simp_all add: w3_def w2_def w1)
  define r2 where "r2 = r1\<lparr>status := JobStatusCompleted, error_message := Some '''',
    started_at := None, completed_at := Some (clock w)\<rparr>"
  define w4 where "w4 = updateJobStatus w3 (ID job) JobStatusCompleted '''' None (Some (clock w3))"
  have w4: "w4 = w3\<lparr>db := (db w3)\<lparr>print_jobs := (print_jobs (db w3))(ID job \<mapsto> r2)\<rparr>\<rparr>"
    using w3(1,2) by (simp add: w4_def r2_def updateJobStatus_row w3(3))
  obtain E2 where w5: "sendJobEvent w4 ''job_completed'' (ID job) (PrinterID job)
      JobStatusCompleted '''' = w4\<lparr>jobEvents := E2\<rparr>"
    using sendJobEvent_shape by blast
  define w5 where "w5 = w4\<lparr>jobEvents := E2\<rparr>"
  have final: "processJob_print incrementPrintCount w job
      = incrementPrintCounter (incrementPrintCount w5 (PrinterID job) (Copies job))
          (PrinterID job) (Copies job)"
    unfolding processJob_print_def Let_def w1_def [symmetric]
    using pm
    by (simp add: w2 w2_def [symmetric])
       (simp add: w2_def w1 prt [unfolded w2_def w1, simplified] w5_def
         w4_def w3_def w5 [unfolded w4_def w3_def w2_def w1, simplified])
  have "printCalls w5 = printCalls w @ [(PrinterID job, TSPLContent job, Copies job)]"
    by (simp add: w5_def w4 w3(6))
  moreover have "print_jobs (db w5) (ID job) = Some r2"
    by (simp add: w5_def w4)
  moreover have "printers w5 = P" "printers_tbl (db w5) = T"
    by (simp_all add: w5_def w4 w3(4,5))
  ultimately show ?thesis
    using final p t by (intro exI [of _ w5]) (simp add: r2_def)
qed

lemma updateJobTSPL_row:
  assumes "\<not> failing (db w)" and "print_jobs (db w) jobID = Some r"
  shows "updateJobTSPL w jobID tspl =
     w\<lparr>db := (db w)\<lparr>print_jobs := (print_jobs (db w))(jobID \<mapsto>
        r\<lparr>tspl_content := tspl\<rparr>)\<rparr>\<rparr>"
  using assms by (simp add: updateJobTSPL_def Exec_updateJob_def)

text \<open>
  The same for \<^verbatim>\<open>processJob\<close>: a pending job \<open>r\<close> whose content \<open>tspl\<close> is stored
  with the job or, when the job has none, generated from its template.
\<close>

lemma processJob_success:
  assumes up: "\<not> failing (db w)"
    and row: "print_jobs (db w) jobID = Some r"
    and pending: "status r = JobStatusPending"
    and msg: "error_message r = Some m"
    and stored: "tspl_content r \<noteq> '''' \<longrightarrow> tspl = tspl_content r"
    and generated: "tspl_content r = '''' \<longrightarrow>
        (\<exists>generate. tsplGenerator w = Some generate
           \<and> generate (template_id r) (variables_json r) = Inr tspl)"
    and notPaused: "\<not> printerPaused w (printer_id r)"
    and pm: "printerManagerSet w"
    and reg: "printers w (printer_id r) = Some p"
    and tbl: "printers_tbl (db w) (printer_id r) = Some pr"
    and conn: "connections w (printer_id r) \<noteq> Some Stale"
    and dial: "dialError (devices w (printer_id r)) = None"
    and wr: "writeError (devices w (printer_id r)) = None"
    and rd: "readLoop (reads (devices w (printer_id r))) [] = Inr [b0, b1, b2, b3]"
    and ready: "b0 = 0x40 \<or> b0 = 0x53 \<or> b0 = 0x49"
  shows "\<exists>w5. processJob incrementPrintCount w jobID
       = incrementPrintCounter (incrementPrintCount w5 (printer_id r) (copies r))
           (printer_id r) (copies r)
     \<and> printCalls w5 = printCalls w @ [(printer_id r, tspl, copies r)]
     \<and> map_option status (print_jobs (db w5) jobID) = Some JobStatusCompleted
     \<and> map_option completed_at (print_jobs (db w5) jobID) = Some (Some (clock w))
     \<and> map_option P_TotalPrints (printers w5 (printer_id r))
         = Some (P_TotalPrints p + word_of_int (copies r))
     \<and> map_option total_prints (printers_tbl (db w5) (printer_id r))
         = Some (sqliteAdd (total_prints pr) (copies r))"
proof -
  define job where "job =
    \<lparr>ID = jobID, PrinterID = printer_id r, TemplateID = template_id r,
     VariablesJSON = variables_json r, TSPLContent = tspl_content r, Status = status r,
     Priority = priority r, RetryCount = retry_count r, MaxRetries = 0, Copies = copies r,
     ErrorMessage = m, SubmittedBy = submitted_by r, CreatedAt = created_at r,
     StartedAt = started_at r, CompletedAt = completed_at r\<rparr>"
  have fetched: "GetJob w jobID = Inr job"
    using up row msg by (simp add: GetJob_def job_def)
  have job: "ID job = jobID" "PrinterID job = printer_id r" "Copies job = copies r"
    "TSPLContent job = tspl_content r" "Status job = JobStatusPending"
    "TemplateID job = template_id r" "VariablesJSON job = variables_json r"
    using pending by (simp_all add: job_def)
  show ?thesis
  proof (cases "tspl_content r = ''''")
    case False
    with stored have tspl: "tspl = tspl_content r" by simp
    have run: "processJob incrementPrintCount w jobID
        = processJob_print incrementPrintCount w job"
      using fetched job notPaused False by (simp add: processJob_def)
    have row': "print_jobs (db w) (ID job) = Some r"
      using row by (simp add: job)
    from processJob_print_success [OF up row' pm
        reg [folded job(2)] tbl [folded job(2)] conn [folded job(2)] dial [folded job(2)]
        wr [folded job(2)] rd [folded job(2)] ready, of incrementPrintCount]
    show ?thesis
      by (simp add: run job tspl)
  next
    case True
    with generated obtain generate where gen: "tsplGenerator w = Some generate"
      "generate (template_id r) (variables_json r) = Inr tspl"
      by blast
    define w1 where "w1 = updateJobTSPL w jobID tspl"
    define job1 where "job1 = job\<lparr>TSPLContent := tspl\<rparr>"
    have w1: "w1 = w\<lparr>db := (db w)\<lparr>print_jobs := (print_jobs (db w))(jobID \<mapsto>
        r\<lparr>tspl_content := tspl\<rparr>)\<rparr>\<rparr>"
      using up row by (simp add: w1_def updateJobTSPL_row)
    have run: "processJob incrementPrintCount w jobID
        = processJob_print incrementPrintCount w1 job1"
      using fetched job notPaused True gen
      by (simp add: processJob_def w1_def job1_def)
    have job1: "ID job1 = jobID" "PrinterID job1 = printer_id r" "Copies job1 = copies r"
      "TSPLContent job1 = tspl"
      by (simp_all add: job1_def job)
    have pre: "\<not> failing (db w1)"
      "print_jobs (db w1) (ID job1) = Some (r\<lparr>tspl_content := tspl\<rparr>)"
      "printerManagerSet w1"
      "printers w1 (PrinterID job1) = Some p"
      "printers_tbl (db w1) (PrinterID job1) = Some pr"
      "connections w1 (PrinterID job1) \<noteq> Some Stale"
      "dialError (devices w1 (PrinterID job1)) = None"
      "writeError (devices w1 (PrinterID job1)) = None"
      "readLoop (reads (devices w1 (PrinterID job1))) [] = Inr [b0, b1, b2, b3]"
      using up pm reg tbl conn dial wr rd by (simp_all add: w1 job1)
    have same: "printCalls w1 = printCalls w" "clock w1 = clock w"
      by (simp_all add: w1)
    from processJob_print_success [OF pre ready, of incrementPrintCount]
    show ?thesis
      by (simp add: run job1 same)
  qed
qed


lemma incrementPrintCounter_frame:
  "printCalls (incrementPrintCounter v k n) = printCalls v"
  "print_jobs (db (incrementPrintCounter v k n)) = print_jobs (db v)"
  "printers (incrementPrintCounter v k n) = printers v"
  "printers_tbl (db (incrementPrintCounter v k n)) = printers_tbl (db v)"
  by (simp_all add: incrementPrintCounter_def Exec_upsertCounter_def)

lemma sint_add_in_range:
  assumes "- (2 ^ 63) \<le> sint a + c" and "sint a + c < 2 ^ 63"
  shows "sint (a + word_of_int c :: 64 word) = sint a + c"
proof -
  define K where "K = sint a + c"
  have "a + word_of_int c = (word_of_int (sint a) :: 64 word) + word_of_int c"
    by simp
  also have "\<dots> = word_of_int K"
    by (simp add: K_def)
  finally have sum: "a + word_of_int c = word_of_int K" .
  have "sint (word_of_int K :: 64 word) = signed_take_bit 63 K"
    by (simp add: sint_sbintrunc')
  also have "\<dots> = K"
    using assms by (intro signed_take_bit_int_eq_self) (simp_all add: K_def)
  finally show ?thesis
    unfolding sum K_def .
qed




end
